theory Spec2Isabelle
  imports Main
begin

unbundle bit_operations_syntax

section \<open>Conventions of the embedding\<close>

text \<open>
  The assembler is a C program (utils.c, commands.c, parser.c, labelTable.c, macro.c,
  first_pass.c, second_pass.c, assembler.c).  Every function a claim depends on is
  translated below under its own name.

  \<^item> A C string is a \<open>string\<close>: the characters before the terminating NUL.  A pointer
    into a string is the suffix it points at; a \<open>char *\<close> that may be \<open>NULL\<close> is a
    \<open>string option\<close>.
  \<^item> A function returning \<open>SUCCESS\<close>/\<open>FAILURE\<close> returns \<open>bool\<close> (\<open>True\<close> is
    \<open>SUCCESS\<close>); a function returning a pointer or \<open>NULL\<close> returns an \<open>option\<close>.
  \<^item> A text file is the \<open>string\<close> of its bytes (no NUL byte); a file written with
    \<open>fprintf(file, "%s %s\n", ...)\<close> is the list of its lines, each without its newline;
    a file that is never opened for writing is \<open>None\<close>.
  \<^item> An \<open>int\<close> is an \<open>int\<close> of HOL.  The data counter and the addresses of the data
    labels, which a single \<open>.mat\<close> line can move past \<open>2 ^ 31\<close>, are computed as the
    program computes them on a machine with 32-bit two's-complement \<open>int\<close>: the result of
    \<open>rows * cols\<close>, of every \<open>*DC += ...\<close> and of \<open>current->address += IC\<close> is wrapped
    by \<open>to_int\<close>.  The instruction counter grows by at most five per line read; it is
    not wrapped, and agrees with the program on every file of fewer than \<open>4 * 10 ^ 8\<close>
    lines.  The array indices stay below the sizes of the arrays.  An address that is only
    printed is not wrapped either: \<open>number_to_base4_letters\<close> and \<open>number_to_base4_code\<close>
    read their argument modulo \<open>2 ^ 32\<close>.  A conversion to \<open>unsigned int\<close> is written
    out as \<open>mod 2 ^ 32\<close>.
  \<^item> \<open>malloc\<close> and \<open>fopen\<close> succeed.  The messages printed on \<open>stderr\<close> are not
    modelled; what a function returns and what it writes to files are.
\<close>

subsection \<open>Character constants (utils.h)\<close>

abbreviation SPACE_CHAR :: char where "SPACE_CHAR \<equiv> CHR '' ''"
abbreviation TAB_CHAR :: char where "TAB_CHAR \<equiv> CHR 0x09"
abbreviation NEWLINE_CHAR :: char where "NEWLINE_CHAR \<equiv> CHR 0x0A"
abbreviation CARRIAGE_RETURN_CHAR :: char where "CARRIAGE_RETURN_CHAR \<equiv> CHR 0x0D"
abbreviation COLON :: char where "COLON \<equiv> CHR '':''"
abbreviation DOT_CHAR :: char where "DOT_CHAR \<equiv> CHR ''.''"
abbreviation OPEN_BRACKET :: char where "OPEN_BRACKET \<equiv> CHR ''[''"
abbreviation CLOSE_BRACKET :: char where "CLOSE_BRACKET \<equiv> CHR '']''"
abbreviation COMMA_CHAR :: char where "COMMA_CHAR \<equiv> CHR '',''"
abbreviation QUOTE_CHAR :: char where "QUOTE_CHAR \<equiv> CHR 0x22"
abbreviation SEMICOLON_CHAR :: char where "SEMICOLON_CHAR \<equiv> CHR '';''"
abbreviation PLUS_SIGN :: char where "PLUS_SIGN \<equiv> CHR ''+''"
abbreviation MINUS_SIGN :: char where "MINUS_SIGN \<equiv> CHR ''-''"
abbreviation IMMEDIATE_PREFIX :: char where "IMMEDIATE_PREFIX \<equiv> CHR ''#''"
abbreviation UNDERSCORE_CHAR :: char where "UNDERSCORE_CHAR \<equiv> CHR ''_''"
abbreviation REGISTER_PREFIX_CHAR :: char where "REGISTER_PREFIX_CHAR \<equiv> CHR ''r''"

abbreviation MAX_LINE_LENGTH :: nat where "MAX_LINE_LENGTH \<equiv> 81"
abbreviation MAX_LABEL_LENGTH :: nat where "MAX_LABEL_LENGTH \<equiv> 31"
abbreviation MAX_MACRO_NAME :: nat where "MAX_MACRO_NAME \<equiv> 31"
abbreviation MAX_MACRO_BODY :: nat where "MAX_MACRO_BODY \<equiv> 1000"
abbreviation MATRIX_DIMENSION_STRING_LENGTH :: nat where "MATRIX_DIMENSION_STRING_LENGTH \<equiv> 10"
abbreviation INITIAL_IC :: int where "INITIAL_IC \<equiv> 100"
abbreviation INITIAL_DC :: int where "INITIAL_DC \<equiv> 0"

text \<open>The characters of a C string literal or array: those before the first NUL.\<close>

definition c_str :: "char list \<Rightarrow> string" where
  "c_str bytes = takeWhile (\<lambda>c. c \<noteq> CHR 0x00) bytes"

text \<open>\<open>#define WHITESPACE_CHARS " \t\n\r"\<close> and \<open>#define CONTROL_CHARS "\x00-\x1F\x7F"\<close>:
  the second literal is the array NUL, \<open>-\<close>, 0x1F, 0x7F, NUL.\<close>

definition WHITESPACE_CHARS :: string where
  "WHITESPACE_CHARS = c_str [SPACE_CHAR, TAB_CHAR, NEWLINE_CHAR, CARRIAGE_RETURN_CHAR]"

definition CONTROL_CHARS :: string where
  "CONTROL_CHARS = c_str [CHR 0x00, CHR ''-'', CHR 0x1F, CHR 0x7F]"

subsection \<open>The C library functions the program calls\<close>

definition char_code :: "char \<Rightarrow> nat" where
  "char_code c = of_char c"

definition isdigit :: "char \<Rightarrow> bool" where
  "isdigit c = (char_code (CHR ''0'') \<le> char_code c \<and> char_code c \<le> char_code (CHR ''9''))"

definition isalpha :: "char \<Rightarrow> bool" where
  "isalpha c = ((char_code (CHR ''A'') \<le> char_code c \<and> char_code c \<le> char_code (CHR ''Z''))
              \<or> (char_code (CHR ''a'') \<le> char_code c \<and> char_code c \<le> char_code (CHR ''z'')))"

definition isalnum :: "char \<Rightarrow> bool" where
  "isalnum c = (isalpha c \<or> isdigit c)"

text \<open>\<open>strchr(s, c)\<close>: the suffix of \<open>s\<close> that starts at the first \<open>c\<close>, or \<open>NULL\<close>.\<close>

definition strchr :: "string \<Rightarrow> char \<Rightarrow> string option" where
  "strchr s c = (if c \<in> set s then Some (dropWhile (\<lambda>x. x \<noteq> c) s) else None)"

definition strspn :: "string \<Rightarrow> string \<Rightarrow> nat" where
  "strspn s accept = length (takeWhile (\<lambda>c. c \<in> set accept) s)"

definition strcspn :: "string \<Rightarrow> string \<Rightarrow> nat" where
  "strcspn s reject = length (takeWhile (\<lambda>c. c \<notin> set reject) s)"

text \<open>The first call \<open>strtok(s, delims)\<close>: the first token of \<open>s\<close>, or \<open>NULL\<close>.\<close>

definition strtok :: "string \<Rightarrow> string \<Rightarrow> string option" where
  "strtok s delims =
     (let s' = dropWhile (\<lambda>c. c \<in> set delims) s
      in if s' = [] then None else Some (takeWhile (\<lambda>c. c \<notin> set delims) s'))"

text \<open>\<open>strtol(s, NULL, 10)\<close> on an optional sign followed by digits (the only strings the
  program passes that are not all digits start with a sign), clamped to a 64-bit \<open>long\<close>;
  \<open>(int)\<close> keeps the low 32 bits as a two's-complement value.\<close>

definition digits_value :: "string \<Rightarrow> int" where
  "digits_value ds = foldl (\<lambda>acc c. acc * 10 + (int (char_code c) - int (char_code (CHR ''0'')))) 0 ds"

definition strtol :: "string \<Rightarrow> int" where
  "strtol s =
     (let neg = (s \<noteq> [] \<and> hd s = MINUS_SIGN);
          body = (if s \<noteq> [] \<and> (hd s = PLUS_SIGN \<or> hd s = MINUS_SIGN) then tl s else s);
          v = digits_value (takeWhile isdigit body);
          r = (if neg then - v else v)
      in max (- (2 ^ 63)) (min (2 ^ 63 - 1) r))"

definition to_int :: "int \<Rightarrow> int" where
  "to_int v = (v + 2 ^ 31) mod 2 ^ 32 - 2 ^ 31"

definition to_unsigned :: "int \<Rightarrow> nat" where
  "to_unsigned v = nat (v mod 2 ^ 32)"

text \<open>\<open>fgets\<close> into a buffer of \<open>k + 1\<close> bytes: at most \<open>k\<close> characters, stopping
  after a newline.  The pair is the buffer and the rest of the file.\<close>

fun fgets :: "nat \<Rightarrow> string \<Rightarrow> string \<times> string" where
  "fgets k [] = ([], [])"
| "fgets 0 (c # cs) = ([], c # cs)"
| "fgets (Suc k) (c # cs) =
     (if c = NEWLINE_CHAR then ([c], cs)
      else (case fgets k cs of (l, r) \<Rightarrow> (c # l, r)))"

lemma fgets_rest_le: "length (snd (fgets k s)) \<le> length s"
  by (induction k s rule: fgets.induct) (auto split: prod.split)

lemma fgets_rest_shorter: "length (snd (fgets (Suc k) (c # cs))) \<le> length cs"
  using fgets_rest_le [of k cs] by (auto split: prod.split)

lemma fgets_line_rest:
  assumes "fgets (MAX_LINE_LENGTH - 1) (c # cs) = (line, rest)"
  shows "length rest \<le> length cs"
proof -
  have "MAX_LINE_LENGTH - 1 = Suc 79" by simp
  with assms have "fgets (Suc 79) (c # cs) = (line, rest)" by (simp only:)
  then have "snd (fgets (Suc 79) (c # cs)) = rest" by (simp only: snd_conv)
  with fgets_rest_shorter [of 79 c cs] show ?thesis by (simp only:)
qed

text \<open>The buffers that the loop \<open>while (fgets(line, sizeof(line), file))\<close> sees, in order,
  for \<open>char line[MAX_LINE_LENGTH]\<close>.\<close>

function read_lines :: "string \<Rightarrow> string list" where
  "read_lines [] = []"
| "read_lines (c # cs) =
     (case fgets (MAX_LINE_LENGTH - 1) (c # cs) of (line, rest) \<Rightarrow> line # read_lines rest)"
  by pat_completeness auto
termination
proof (relation "measure length", goal_cases)
  case 1
  show ?case by simp
next
  case (2 c cs line rest)
  then have "fgets (MAX_LINE_LENGTH - 1) (c # cs) = (line, rest)" by simp
  then have "length rest \<le> length cs" by (rule fgets_line_rest)
  then show ?case by simp
qed

subsection \<open>The instruction table (commands.h, commands.c)\<close>

text \<open>Addressing-mode bit masks; \<open>FAILURE\<close> is 0, so \<open>get_operand_mode\<close> returns an
  \<open>int\<close> that is a mask or \<open>FAILURE\<close>.\<close>

abbreviation FAILURE :: int where "FAILURE \<equiv> 0"
abbreviation IMMEDIATE :: int where "IMMEDIATE \<equiv> 1"
abbreviation DIRECT :: int where "DIRECT \<equiv> 2"
abbreviation MATRIX_ACCESS :: int where "MATRIX_ACCESS \<equiv> 4"
abbreviation REGISTER :: int where "REGISTER \<equiv> 8"
abbreviation NO_OPERANDS :: int where "NO_OPERANDS \<equiv> 0"
abbreviation SINGLE_OPERAND :: int where "SINGLE_OPERAND \<equiv> 1"
abbreviation DOUBLE_OPERAND :: int where "DOUBLE_OPERAND \<equiv> 2"

record command_instructions =
  name :: string
  opcode :: int
  num_of_operands :: int
  source_mode :: int
  destination_mode :: int

definition mk_instruction :: "string \<Rightarrow> int \<Rightarrow> int \<Rightarrow> int \<Rightarrow> int \<Rightarrow> command_instructions" where
  "mk_instruction n opc k src dst =
     \<lparr>name = n, opcode = opc, num_of_operands = k, source_mode = src, destination_mode = dst\<rparr>"

text \<open>The opcodes are the values of \<open>enum opcode_types\<close>: MOV = 0, CMP, ADD, SUB, LEA, CLR,
  NOT, INC, DEC, JMP, BNE, JSR, RED, PRN, RTS, STOP = 15.\<close>

definition instruction_table :: "command_instructions list" where
  "instruction_table =
    [mk_instruction ''mov'' 0 DOUBLE_OPERAND (IMMEDIATE OR DIRECT OR MATRIX_ACCESS OR REGISTER) (DIRECT OR MATRIX_ACCESS OR REGISTER),
     mk_instruction ''cmp'' 1 DOUBLE_OPERAND (IMMEDIATE OR DIRECT OR MATRIX_ACCESS OR REGISTER) (IMMEDIATE OR DIRECT OR MATRIX_ACCESS OR REGISTER),
     mk_instruction ''add'' 2 DOUBLE_OPERAND (IMMEDIATE OR DIRECT OR MATRIX_ACCESS OR REGISTER) (DIRECT OR MATRIX_ACCESS OR REGISTER),
     mk_instruction ''sub'' 3 DOUBLE_OPERAND (IMMEDIATE OR DIRECT OR MATRIX_ACCESS OR REGISTER) (DIRECT OR MATRIX_ACCESS OR REGISTER),
     mk_instruction ''not'' 6 SINGLE_OPERAND NO_OPERANDS (DIRECT OR MATRIX_ACCESS OR REGISTER),
     mk_instruction ''clr'' 5 SINGLE_OPERAND NO_OPERANDS (DIRECT OR MATRIX_ACCESS OR REGISTER),
     mk_instruction ''lea'' 4 DOUBLE_OPERAND (DIRECT OR MATRIX_ACCESS) REGISTER,
     mk_instruction ''inc'' 7 SINGLE_OPERAND NO_OPERANDS (DIRECT OR MATRIX_ACCESS OR REGISTER),
     mk_instruction ''dec'' 8 SINGLE_OPERAND NO_OPERANDS (DIRECT OR MATRIX_ACCESS OR REGISTER),
     mk_instruction ''jmp'' 9 SINGLE_OPERAND NO_OPERANDS (DIRECT OR MATRIX_ACCESS),
     mk_instruction ''bne'' 10 SINGLE_OPERAND NO_OPERANDS (DIRECT OR MATRIX_ACCESS),
     mk_instruction ''red'' 12 SINGLE_OPERAND NO_OPERANDS (DIRECT OR MATRIX_ACCESS OR REGISTER),
     mk_instruction ''prn'' 13 SINGLE_OPERAND NO_OPERANDS (IMMEDIATE OR DIRECT OR MATRIX_ACCESS OR REGISTER),
     mk_instruction ''jsr'' 11 SINGLE_OPERAND NO_OPERANDS (DIRECT OR MATRIX_ACCESS),
     mk_instruction ''rts'' 14 NO_OPERANDS NO_OPERANDS NO_OPERANDS,
     mk_instruction ''stop'' 15 NO_OPERANDS NO_OPERANDS NO_OPERANDS]"

definition get_instruction :: "string option \<Rightarrow> command_instructions option" where
  "get_instruction command_name =
     (case command_name of
        None \<Rightarrow> None
      | Some n \<Rightarrow> find (\<lambda>i. name i = n) instruction_table)"

subsection \<open>Token classification (utils.c)\<close>

definition is_valid_directive :: "string \<Rightarrow> bool" where
  "is_valid_directive n =
     (n = ''.data'' \<or> n = ''.string'' \<or> n = ''.mat'' \<or> n = ''.extern'' \<or> n = ''.entry'')"

definition is_valid_opcode :: "string \<Rightarrow> bool" where
  "is_valid_opcode n = (\<exists>i \<in> set instruction_table. name i = n)"

text \<open>\<open>len == 2 && s[0] == 'r' && s[1] >= '0' && s[1] <= '7'\<close>, the test that
  \<open>is_valid_label\<close>, \<open>is_valid_macro_name\<close>, \<open>is_valid_register\<close> and
  \<open>get_register_number\<close> all spell out.\<close>

definition is_register_name :: "string \<Rightarrow> bool" where
  "is_register_name s =
     (length s = 2 \<and> hd s = REGISTER_PREFIX_CHAR
      \<and> char_code (CHR ''0'') \<le> char_code (s ! 1) \<and> char_code (s ! 1) \<le> char_code (CHR ''7''))"

definition is_valid_macro_name :: "string \<Rightarrow> bool" where
  "is_valid_macro_name n =
     (if length n < 1 then False
      else if \<not> isalpha (hd n) then False
      else if is_valid_opcode n then False
      else if is_register_name n then False
      else list_all (\<lambda>c. isalnum c \<or> c = UNDERSCORE_CHAR) n)"

definition is_valid_label :: "string \<Rightarrow> bool" where
  "is_valid_label l =
     (if length l = 0 then False
      else if length l > MAX_LABEL_LENGTH - 1 then False
      else if \<not> isalpha (hd l) then False
      else if \<not> list_all (\<lambda>c. isalpha c \<or> isdigit c) (tl l) then False
      else if is_valid_opcode l then False
      else if is_register_name l then False
      else True)"

definition is_valid_register :: "string \<Rightarrow> bool" where
  "is_valid_register reg_str = is_register_name reg_str"

text \<open>\<open>parse_matrix_access\<close>: the four \<open>strchr\<close> calls find \<open>[\<close>, \<open>]\<close>, \<open>[\<close>, \<open>]\<close> in
  turn; a difference of two pointers is the difference of the lengths of the suffixes.\<close>

definition parse_matrix_access :: "string \<Rightarrow> bool" where
  "parse_matrix_access operand =
     (case strchr operand OPEN_BRACKET of
        None \<Rightarrow> False
      | Some first_bracket \<Rightarrow>
     (case strchr (tl first_bracket) CLOSE_BRACKET of
        None \<Rightarrow> False
      | Some first_close \<Rightarrow>
     (case strchr (tl first_close) OPEN_BRACKET of
        None \<Rightarrow> False
      | Some second_bracket \<Rightarrow>
     (case strchr (tl second_bracket) CLOSE_BRACKET of
        None \<Rightarrow> False
      | Some second_close \<Rightarrow>
          (let copy = take (length operand - length first_bracket) operand
           in if length copy = 0 \<or> \<not> is_valid_label copy then False
              else if length first_bracket - length first_close - 1 \<noteq> 2 then False
              else if length second_bracket - length second_close - 1 \<noteq> 2 then False
              else is_valid_register (take 2 (tl first_bracket))
                   \<and> is_valid_register (take 2 (tl second_bracket)))))))"

definition is_valid_number :: "string \<Rightarrow> bool" where
  "is_valid_number str =
     (if length str = 0 then False
      else list_all isdigit (if hd str = PLUS_SIGN \<or> hd str = MINUS_SIGN then tl str else str))"

text \<open>\<open>get_operand_mode\<close>; the argument is \<open>NULL\<close> when the caller indexes
  \<open>parts->operands\<close> at or beyond \<open>how_many_operands\<close> (\<open>parse_line\<close> sets every unused
  slot to \<open>NULL\<close>).\<close>

definition get_operand_mode :: "string option \<Rightarrow> int" where
  "get_operand_mode operand =
     (case operand of
        None \<Rightarrow> FAILURE
      | Some s \<Rightarrow>
          if s \<noteq> [] \<and> hd s = QUOTE_CHAR then
            (if length s \<ge> 2 \<and> last s = QUOTE_CHAR then IMMEDIATE else FAILURE)
          else if length s = 2 \<and> hd s = REGISTER_PREFIX_CHAR then
            (if char_code (CHR ''0'') \<le> char_code (s ! 1) \<and> char_code (s ! 1) \<le> char_code (CHR ''7'')
             then REGISTER else FAILURE)
          else if s \<noteq> [] \<and> hd s = IMMEDIATE_PREFIX then
            (let num_part = tl s
             in if length num_part = 0 then FAILURE
                else if list_all isdigit
                          (if hd num_part = PLUS_SIGN \<or> hd num_part = MINUS_SIGN
                           then tl num_part else num_part)
                     then IMMEDIATE else FAILURE)
          else if strchr s OPEN_BRACKET \<noteq> None \<and> strchr s CLOSE_BRACKET \<noteq> None then
            (if parse_matrix_access s then MATRIX_ACCESS else FAILURE)
          else if length s > 0 \<and> isalpha (hd s) \<and> list_all (\<lambda>c. isalpha c \<or> isdigit c) s
            then DIRECT
          else FAILURE)"

subsection \<open>Base-4 letters (utils.c)\<close>

text \<open>\<open>result[i] = 'a' + (word % 4)\<close>.\<close>

definition base4_letter :: "nat \<Rightarrow> char" where
  "base4_letter d = char_of (of_char (CHR ''a'') + d)"

text \<open>The loop \<open>for (i = n - 1; i >= 0; i--) { result[i] = 'a' + (word % 4); word /= 4; }\<close>
  fills \<open>n\<close> letters from the right.\<close>

fun base4_fill :: "nat \<Rightarrow> nat \<Rightarrow> string" where
  "base4_fill 0 w = []"
| "base4_fill (Suc n) w = base4_fill n (w div 4) @ [base4_letter (w mod 4)]"

definition number_to_base4_letters :: "int \<Rightarrow> string" where
  "number_to_base4_letters v = (let w = to_unsigned v in base4_fill 4 w)"

definition number_to_base4_code :: "int \<Rightarrow> string" where
  "number_to_base4_code v = (let w = to_unsigned v AND 0x3FF in base4_fill 5 w)"

text \<open>Reading a base-4 numeral over the alphabet \<open>a = 0\<close>, \<open>b = 1\<close>, \<open>c = 2\<close>,
  \<open>d = 3\<close>, most significant digit first, as the specification describes it (the program
  itself has no decoder).\<close>

definition base4_digit :: "char \<Rightarrow> nat" where
  "base4_digit c =
     (if c = CHR ''a'' then 0 else if c = CHR ''b'' then 1 else if c = CHR ''c'' then 2 else 3)"

definition base4_decode :: "string \<Rightarrow> nat" where
  "base4_decode s = foldl (\<lambda>acc c. acc * 4 + base4_digit c) 0 s"

subsection \<open>The line parser (parser.c)\<close>

text \<open>\<open>separate_line\<close>: \<open>how_many_operands\<close> is the length of \<open>operands\<close>, and
  \<open>operands[i]\<close> is \<open>NULL\<close> for every other index below \<open>MAX_OPERANDS\<close>.\<close>

record separate_line =
  label :: "string option"
  command :: "string option"
  operands :: "string list"

definition operand_at :: "separate_line \<Rightarrow> nat \<Rightarrow> string option" where
  "operand_at parts i = (if i < length (operands parts) then Some (operands parts ! i) else None)"

definition is_blank :: "char \<Rightarrow> bool" where
  "is_blank c = (c = SPACE_CHAR \<or> c = TAB_CHAR)"

definition extract_label :: "string \<Rightarrow> string option" where
  "extract_label line0 =
     (let line = dropWhile is_blank line0
      in case strchr line COLON of
           None \<Rightarrow> None
         | Some before_colon \<Rightarrow>
             (let label_length = length line - length before_colon
              in if label_length = 0 then None
                 else if label_length > MAX_LABEL_LENGTH - 1 then None
                 else if \<not> is_valid_label (take label_length line) then None
                 else Some (take label_length line)))"

definition extract_command :: "string \<Rightarrow> string option" where
  "extract_command line =
     (let line_copy = take (MAX_LINE_LENGTH - 1) line;
          line_ptr = dropWhile is_blank line_copy
      in case strtok line_ptr WHITESPACE_CHARS of
           None \<Rightarrow> None
         | Some token \<Rightarrow>
             if length token = 0 then None
             else if \<not> is_valid_opcode token \<and> \<not> is_valid_directive token then None
             else Some token)"

text \<open>One operand of \<open>extract_operands\<close>, read at a position that is not at the end of
  the line: the operand and the position after it.  A quoted operand runs to the closing
  quote (kept) or to the end of the string; any other runs to a comma, blank, newline or
  carriage return.  (The bound \<open>operand_index < MAX_LINE_LENGTH\<close> is never reached: the
  operand lies inside a copy of at most 80 characters.)\<close>

definition operand_end :: "char \<Rightarrow> bool" where
  "operand_end c =
     (c = COMMA_CHAR \<or> c = SPACE_CHAR \<or> c = TAB_CHAR \<or> c = NEWLINE_CHAR \<or> c = CARRIAGE_RETURN_CHAR)"

definition read_operand :: "string \<Rightarrow> string \<times> string" where
  "read_operand current_pos =
     (if hd current_pos = QUOTE_CHAR then
        (let body = takeWhile (\<lambda>c. c \<noteq> QUOTE_CHAR) (tl current_pos);
             after = dropWhile (\<lambda>c. c \<noteq> QUOTE_CHAR) (tl current_pos)
         in if after \<noteq> [] then (QUOTE_CHAR # body @ [QUOTE_CHAR], tl after)
            else (QUOTE_CHAR # body, after))
      else (takeWhile (\<lambda>c. \<not> operand_end c) current_pos,
            dropWhile (\<lambda>c. \<not> operand_end c) current_pos))"

lemma length_dropWhile_le: "length (dropWhile P xs) \<le> length xs"
  by (induction xs) simp_all

lemma read_operand_le: "length (snd (read_operand p)) \<le> length p"
proof (cases p)
  case Nil
  then show ?thesis by (simp add: read_operand_def)
next
  case (Cons c cs)
  have "length (dropWhile (\<lambda>c. c \<noteq> QUOTE_CHAR) cs) \<le> length cs"
    by (rule length_dropWhile_le)
  moreover have "length (dropWhile (\<lambda>c. \<not> operand_end c) (c # cs)) \<le> length (c # cs)"
    by (rule length_dropWhile_le)
  ultimately show ?thesis using Cons
    by (auto simp: read_operand_def Let_def)
qed

lemma read_operand_progress:
  assumes "p \<noteq> []" and "hd p = QUOTE_CHAR \<or> \<not> operand_end (hd p)"
  shows "length (snd (read_operand p)) < length p"
proof -
  from assms(1) obtain c cs where p: "p = c # cs" by (cases p) auto
  have "length (dropWhile (\<lambda>c. c \<noteq> QUOTE_CHAR) cs) \<le> length cs"
    by (rule length_dropWhile_le)
  moreover have "length (dropWhile (\<lambda>c. \<not> operand_end c) cs) \<le> length cs"
    by (rule length_dropWhile_le)
  ultimately show ?thesis using p assms(2)
    by (auto simp: read_operand_def Let_def)
qed

text \<open>The loop \<open>while (*current_pos && operand_count < MAX_OPERANDS)\<close> of
  \<open>extract_operands\<close>; the second argument holds the operands read so far, last first.
  \<open>None\<close> is the \<open>return NULL\<close> after a comma that is followed by a comma or by the end
  of the line.  (\<open>MAX_OPERANDS\<close> is 1000 and the copy has at most 80 characters, so the
  bound on \<open>operand_count\<close> is never reached.)\<close>

function operands_loop :: "string \<Rightarrow> string list \<Rightarrow> string list option" where
  "operands_loop current_pos acc =
     (let p1 = dropWhile is_blank current_pos
      in if p1 = [] \<or> hd p1 = NEWLINE_CHAR \<or> hd p1 = CARRIAGE_RETURN_CHAR then Some (rev acc)
         else
           (let operand = fst (read_operand p1);
                p2 = dropWhile is_blank (snd (read_operand p1))
            in if p2 \<noteq> [] \<and> hd p2 = COMMA_CHAR then
                 (let temp_pos = dropWhile is_blank (tl p2)
                  in if temp_pos = [] \<or> hd temp_pos = COMMA_CHAR \<or> hd temp_pos = NEWLINE_CHAR
                        \<or> hd temp_pos = CARRIAGE_RETURN_CHAR
                     then None
                     else operands_loop (tl p2) (operand # acc))
               else operands_loop p2 (operand # acc)))"
  by pat_completeness auto
termination
proof (relation "measure (\<lambda>(p, acc). length p)")
  show "wf (measure (\<lambda>(p, acc). length p))" by simp
next
  fix current_pos :: string and acc :: "string list" and p1 operand p2 temp_pos
  assume p1: "p1 = dropWhile is_blank current_pos"
    and p2: "p2 = dropWhile is_blank (snd (read_operand p1))"
    and ne: "p2 \<noteq> [] \<and> hd p2 = COMMA_CHAR"
  have "length p2 \<le> length (snd (read_operand p1))"
    unfolding p2 by (rule length_dropWhile_le)
  also have "\<dots> \<le> length p1" by (rule read_operand_le)
  also have "\<dots> \<le> length current_pos" unfolding p1 by (rule length_dropWhile_le)
  finally have "length p2 \<le> length current_pos" .
  moreover have "length (tl p2) < length p2" using ne by (cases p2) simp_all
  ultimately show "((tl p2, operand # acc), (current_pos, acc)) \<in> measure (\<lambda>(p, acc). length p)"
    by simp
next
  fix current_pos :: string and acc :: "string list" and p1 operand p2
  assume p1: "p1 = dropWhile is_blank current_pos"
    and go: "\<not> (p1 = [] \<or> hd p1 = NEWLINE_CHAR \<or> hd p1 = CARRIAGE_RETURN_CHAR)"
    and p2: "p2 = dropWhile is_blank (snd (read_operand p1))"
    and nc: "\<not> (p2 \<noteq> [] \<and> hd p2 = COMMA_CHAR)"
  from go have ne1: "p1 \<noteq> []" by simp
  have nb: "\<not> is_blank (hd p1)"
    using ne1 unfolding p1 by (rule hd_dropWhile)
  have "hd p1 = QUOTE_CHAR \<or> \<not> operand_end (hd p1)"
  proof (rule ccontr)
    assume "\<not> (hd p1 = QUOTE_CHAR \<or> \<not> operand_end (hd p1))"
    then have q: "hd p1 \<noteq> QUOTE_CHAR" and e: "operand_end (hd p1)" by simp_all
    from e nb go have c: "hd p1 = COMMA_CHAR"
      by (auto simp: operand_end_def is_blank_def)
    from ne1 obtain x xs where x: "p1 = x # xs" by (cases p1) auto
    with c e have "snd (read_operand p1) = p1"
      by (simp add: read_operand_def)
    with x c have "p2 = p1" unfolding p2 by (simp add: is_blank_def)
    with nc ne1 c show False by simp
  qed
  with ne1 have "length (snd (read_operand p1)) < length p1"
    by (rule read_operand_progress)
  moreover have "length p2 \<le> length (snd (read_operand p1))"
    unfolding p2 by (rule length_dropWhile_le)
  moreover have "length p1 \<le> length current_pos" unfolding p1 by (rule length_dropWhile_le)
  ultimately show "((p2, operand # acc), (current_pos, acc)) \<in> measure (\<lambda>(p, acc). length p)"
    by simp
qed

text \<open>\<open>extract_operands\<close>: skip blanks, skip the command, skip blanks; \<open>NULL\<close> (with
  \<open>*count = 0\<close>) when the line ends there, else the loop.\<close>

definition extract_operands :: "string \<Rightarrow> string list option" where
  "extract_operands line =
     (let line_copy = take (MAX_LINE_LENGTH - 1) line;
          p0 = dropWhile is_blank line_copy;
          p1 = dropWhile (\<lambda>c. c \<noteq> SPACE_CHAR \<and> c \<noteq> TAB_CHAR \<and> c \<noteq> NEWLINE_CHAR) p0;
          p2 = dropWhile is_blank p1
      in if p2 = [] \<or> hd p2 = NEWLINE_CHAR then None
         else operands_loop p2 [])"

text \<open>\<open>handle_label_extraction\<close>: the label (if the line has a colon) and the rest of
  the line; \<open>None\<close> is the \<open>NULL\<close> returned for an invalid label.\<close>

definition handle_label_extraction :: "string \<Rightarrow> (string option \<times> string) option" where
  "handle_label_extraction line_copy =
     (case strchr line_copy COLON of
        Some colon_pos \<Rightarrow>
          (case extract_label line_copy of
             None \<Rightarrow> None
           | Some l \<Rightarrow> Some (Some l, tl colon_pos))
      | None \<Rightarrow> Some (None, line_copy))"

definition parse_line :: "string \<Rightarrow> separate_line option" where
  "parse_line line =
     (if length line = 0 then None
      else if length line \<ge> MAX_LINE_LENGTH then None
      else if strspn line WHITESPACE_CHARS = length line then None
      else if strcspn line CONTROL_CHARS \<noteq> length line then None
      else
        (let line_copy = take (MAX_LINE_LENGTH - 1) line
         in case handle_label_extraction line_copy of
              None \<Rightarrow> None
            | Some (lbl, rest0) \<Rightarrow>
                (let rest = dropWhile is_blank rest0
                 in if rest = [] then Some \<lparr>label = lbl, command = None, operands = []\<rparr>
                    else
                      (case extract_command rest of
                         None \<Rightarrow> None
                       | Some cmd \<Rightarrow>
                           Some \<lparr>label = lbl, command = Some cmd,
                                 operands = (case extract_operands rest of
                                               None \<Rightarrow> []
                                             | Some ops \<Rightarrow> ops)\<rparr>))))"

text \<open>\<open>check_line\<close> (commands.c), the validation of a parsed line against the
  instruction table.  No other function of the program calls it.\<close>

definition check_line :: "separate_line \<Rightarrow> bool" where
  "check_line line =
     (case command line of
        None \<Rightarrow> False
      | Some cmd \<Rightarrow>
          if (case label line of Some l \<Rightarrow> \<not> is_valid_label l | None \<Rightarrow> False) then False
          else
            (case get_instruction (Some cmd) of
               None \<Rightarrow> False
             | Some instruction \<Rightarrow>
                 if int (length (operands line)) \<noteq> num_of_operands instruction then False
                 else if num_of_operands instruction = SINGLE_OPERAND then
                   (let dest_mode = get_operand_mode (operand_at line 0)
                    in if dest_mode = FAILURE then False
                       else if dest_mode AND destination_mode instruction = NO_OPERANDS then False
                       else True)
                 else if num_of_operands instruction = DOUBLE_OPERAND then
                   (let source_mode' = get_operand_mode (operand_at line 0);
                        dest_mode = get_operand_mode (operand_at line 1)
                    in if source_mode' = FAILURE \<or> dest_mode = FAILURE then False
                       else if source_mode' AND source_mode instruction = NO_OPERANDS then False
                       else if dest_mode AND destination_mode instruction = NO_OPERANDS then False
                       else True)
                 else True))"

subsection \<open>The symbol table (labelTable.h, labelTable.c)\<close>

datatype label_type = LABEL_CODE | LABEL_DATA | LABEL_EXTERNAL | LABEL_ENTRY

text \<open>\<open>label_node\<close> (its field \<open>name\<close> is \<open>node_name\<close> here, \<open>type\<close> is \<open>node_type\<close>);
  the table is the linked list from \<open>table->head\<close>.\<close>

record label_node =
  node_name :: string
  address :: int
  node_type :: label_type
  is_defined :: bool

type_synonym label_table = "label_node list"

definition find_label :: "label_table \<Rightarrow> string \<Rightarrow> label_node option" where
  "find_label table n = find (\<lambda>node. node_name node = n) table"

text \<open>A write through the pointer that \<open>find_label\<close> returned: the first node of that
  name is changed.\<close>

fun update_label :: "string \<Rightarrow> (label_node \<Rightarrow> label_node) \<Rightarrow> label_table \<Rightarrow> label_table" where
  "update_label n f [] = []"
| "update_label n f (node # rest) =
     (if node_name node = n then f node # rest else node # update_label n f rest)"

definition add_label :: "label_table \<Rightarrow> string \<Rightarrow> int \<Rightarrow> label_type \<Rightarrow> label_table option" where
  "add_label table n addr ty =
     (if \<not> is_valid_label n then None
      else if find_label table n \<noteq> None then None
      else Some (\<lparr>node_name = n, address = addr, node_type = ty, is_defined = False\<rparr> # table))"

definition mark_label_defined :: "label_table \<Rightarrow> string \<Rightarrow> label_table option" where
  "mark_label_defined table n =
     (case find_label table n of
        None \<Rightarrow> None
      | Some l \<Rightarrow>
          if is_defined l then None
          else Some (update_label n (\<lambda>node. node\<lparr>is_defined := True\<rparr>) table))"

subsection \<open>The first pass (first_pass.c)\<close>

text \<open>\<open>parse_matrix_dimensions\<close> (first_pass.c and, with the same body, second_pass.c):
  the rows and columns of \<open>[rows][cols]\<close>.\<close>

definition parse_matrix_dimensions :: "string \<Rightarrow> (int \<times> int) option" where
  "parse_matrix_dimensions operand =
     (case strchr operand OPEN_BRACKET of
        None \<Rightarrow> None
      | Some first_bracket \<Rightarrow>
     (case strchr (tl first_bracket) CLOSE_BRACKET of
        None \<Rightarrow> None
      | Some second_bracket \<Rightarrow>
     (case strchr (tl second_bracket) OPEN_BRACKET of
        None \<Rightarrow> None
      | Some third_bracket \<Rightarrow>
     (case strchr (tl third_bracket) CLOSE_BRACKET of
        None \<Rightarrow> None
      | Some fourth_bracket \<Rightarrow>
          (let rows_len = int (length first_bracket) - int (length second_bracket) - 1;
               cols_len = int (length third_bracket) - int (length fourth_bracket) - 1
           in if rows_len \<le> 0 \<or> rows_len \<ge> int MATRIX_DIMENSION_STRING_LENGTH then None
              else if cols_len \<le> 0 \<or> cols_len \<ge> int MATRIX_DIMENSION_STRING_LENGTH then None
              else
                (let rows_str = take (nat rows_len) (tl first_bracket);
                     cols_str = take (nat cols_len) (tl third_bracket)
                 in if \<not> list_all isdigit rows_str then None
                    else if \<not> list_all isdigit cols_str then None
                    else
                      (let rows = to_int (strtol rows_str);
                           cols = to_int (strtol cols_str)
                       in if rows \<le> 0 \<or> cols \<le> 0 then None else Some (rows, cols))))))))"

definition estimate_ic_words :: "separate_line \<Rightarrow> int" where
  "estimate_ic_words parts =
     (case command parts of
        None \<Rightarrow> 0
      | Some cmd \<Rightarrow>
          (case get_instruction (Some cmd) of
             None \<Rightarrow> 0
           | Some inst \<Rightarrow>
               if num_of_operands inst = 0 then 1
               else if num_of_operands inst = 1 then
                 (let dst_mode = get_operand_mode (operand_at parts 0)
                  in if dst_mode = FAILURE then 0
                     else if dst_mode = MATRIX_ACCESS then 1 + 2
                     else 1 + 1)
               else if num_of_operands inst = 2 then
                 (let src_mode = get_operand_mode (operand_at parts 0);
                      dst_mode = get_operand_mode (operand_at parts 1)
                  in if src_mode = FAILURE \<or> dst_mode = FAILURE then 0
                     else if src_mode = REGISTER \<and> dst_mode = REGISTER then 1 + 1
                     else 1 + (if src_mode = MATRIX_ACCESS then 2 else 1)
                            + (if dst_mode = MATRIX_ACCESS then 2 else 1))
               else 1))"

definition define_label :: "label_table \<Rightarrow> string \<Rightarrow> int \<Rightarrow> label_type \<Rightarrow> bool \<times> label_table" where
  "define_label table n addr ty =
     (case find_label table n of
        Some existing \<Rightarrow>
          if is_defined existing then (False, table)
          else (True, update_label n
                        (\<lambda>node. node\<lparr>address := addr,
                                      node_type := (if node_type node \<noteq> LABEL_ENTRY then ty
                                                    else node_type node),
                                      is_defined := True\<rparr>) table)
      | None \<Rightarrow>
          (case add_label table n addr ty of
             Some table' \<Rightarrow>
               (case mark_label_defined table' n of
                  Some table'' \<Rightarrow> (True, table'')
                | None \<Rightarrow> (False, table'))
           | None \<Rightarrow>
               (case find_label table n of
                  Some existing \<Rightarrow>
                    if \<not> is_defined existing then
                      (True, update_label n
                               (\<lambda>node. node\<lparr>address := addr,
                                             node_type := (if node_type node \<noteq> LABEL_ENTRY then ty
                                                           else node_type node),
                                             is_defined := True\<rparr>) table)
                    else (False, table)
                | None \<Rightarrow> (False, table))))"

text \<open>The check that \<open>process_line\<close> makes on every operand of \<open>.data\<close> and every value
  of \<open>.mat\<close>: an optional sign, then at least one character, all of them digits.\<close>

definition is_signed_number :: "string \<Rightarrow> bool" where
  "is_signed_number operand =
     (let op = (if operand \<noteq> [] \<and> (hd operand = PLUS_SIGN \<or> hd operand = MINUS_SIGN)
                then tl operand else operand)
      in if op = [] \<or> \<not> isdigit (hd op) then False
         else list_all isdigit op)"

text \<open>The loop of the \<open>.extern\<close> branch; \<open>False\<close> is its \<open>return FAILURE\<close>.  The result
  of \<open>add_label\<close> is not looked at.\<close>

fun extern_loop :: "string list \<Rightarrow> label_table \<Rightarrow> bool \<times> label_table" where
  "extern_loop [] table = (True, table)"
| "extern_loop (operand # rest) table =
     (case find_label table operand of
        Some ex \<Rightarrow> if is_defined ex then (False, table) else extern_loop rest table
      | None \<Rightarrow>
          extern_loop rest
            (case add_label table operand 0 LABEL_EXTERNAL of
               Some table' \<Rightarrow> table'
             | None \<Rightarrow> table))"

text \<open>The loop of the \<open>.entry\<close> branch.\<close>

fun entry_loop :: "string list \<Rightarrow> label_table \<Rightarrow> label_table" where
  "entry_loop [] table = table"
| "entry_loop (operand # rest) table =
     entry_loop rest
       (case find_label table operand of
          Some en \<Rightarrow>
            if is_defined en then
              (if node_type en \<noteq> LABEL_DATA
               then update_label operand (\<lambda>node. node\<lparr>node_type := LABEL_ENTRY\<rparr>) table
               else table)
            else update_label operand (\<lambda>node. node\<lparr>node_type := LABEL_ENTRY\<rparr>) table
        | None \<Rightarrow>
            (case add_label table operand 0 LABEL_ENTRY of
               Some table' \<Rightarrow> table'
             | None \<Rightarrow> table))"

text \<open>\<open>if (had_label) { if (define_label(table, parts->label, addr, type) == FAILURE) return FAILURE; }\<close>,
  the step that every defining branch of \<open>process_line\<close> makes.\<close>

definition define_if_labelled ::
  "separate_line \<Rightarrow> label_table \<Rightarrow> int \<Rightarrow> label_type \<Rightarrow> bool \<times> label_table" where
  "define_if_labelled parts table addr ty =
     (case label parts of
        Some l \<Rightarrow> define_label table l addr ty
      | None \<Rightarrow> (True, table))"

text \<open>The branches of \<open>process_line\<close> for \<open>.data\<close>, \<open>.string\<close>, \<open>.mat\<close> and for an
  instruction; each result is the return value, the table, \<open>*IC\<close> and \<open>*DC\<close>.\<close>

definition data_directive ::
  "separate_line \<Rightarrow> label_table \<Rightarrow> int \<Rightarrow> int \<Rightarrow> bool \<times> label_table \<times> int \<times> int" where
  "data_directive parts table IC DC =
     (if \<not> list_all is_signed_number (operands parts) then (False, table, IC, DC)
      else
        (case define_if_labelled parts table DC LABEL_DATA of
           (ok, table') \<Rightarrow>
             if \<not> ok then (False, table', IC, DC)
             else (True, table', IC, to_int (DC + int (length (operands parts))))))"

definition string_directive ::
  "separate_line \<Rightarrow> label_table \<Rightarrow> int \<Rightarrow> int \<Rightarrow> bool \<times> label_table \<times> int \<times> int" where
  "string_directive parts table IC DC =
     (if length (operands parts) \<noteq> 1 \<or> operands parts ! 0 = []
         \<or> hd (operands parts ! 0) \<noteq> QUOTE_CHAR
      then (False, table, IC, DC)
      else
        (let s = operands parts ! 0; len = length s
         in if len < 2 \<or> last s \<noteq> QUOTE_CHAR then (False, table, IC, DC)
            else
              (case define_if_labelled parts table DC LABEL_DATA of
                 (ok, table') \<Rightarrow>
                   if \<not> ok then (False, table', IC, DC)
                   else (True, table', IC, to_int (DC + int ((if len \<ge> 2 then len - 2 else 0) + 1))))))"

definition mat_directive ::
  "separate_line \<Rightarrow> label_table \<Rightarrow> int \<Rightarrow> int \<Rightarrow> bool \<times> label_table \<times> int \<times> int" where
  "mat_directive parts table IC DC =
     (if length (operands parts) < 1 then (False, table, IC, DC)
      else
        (case parse_matrix_dimensions (operands parts ! 0) of
           None \<Rightarrow> (False, table, IC, DC)
         | Some (rows, cols) \<Rightarrow>
             (let total_elements = to_int (rows * cols);
                  values_provided = int (length (tl (operands parts)))
              in if \<not> list_all is_signed_number (tl (operands parts))
                 then (False, table, IC, DC)
                 else if values_provided \<noteq> 0 \<and> values_provided \<noteq> total_elements
                 then (False, table, IC, DC)
                 else
                   (case define_if_labelled parts table DC LABEL_DATA of
                      (ok, table') \<Rightarrow>
                        if \<not> ok then (False, table', IC, DC)
                        else (True, table', IC, to_int (DC + total_elements))))))"

definition instruction_line ::
  "separate_line \<Rightarrow> label_table \<Rightarrow> int \<Rightarrow> int \<Rightarrow> bool \<times> label_table \<times> int \<times> int" where
  "instruction_line parts table IC DC =
     (let words = estimate_ic_words parts
      in if words = 0 then (False, table, IC, DC)
         else
           (case define_if_labelled parts table IC LABEL_CODE of
              (ok, table') \<Rightarrow>
                if \<not> ok then (False, table', IC, DC)
                else (True, table', IC + words, DC)))"

text \<open>The start of \<open>process_line\<close>: leading blanks are skipped, then one carriage return.\<close>

definition line_start :: "string \<Rightarrow> string" where
  "line_start line0 =
     (let line1 = dropWhile is_blank line0
      in if line1 \<noteq> [] \<and> hd line1 = CARRIAGE_RETURN_CHAR then tl line1 else line1)"

text \<open>\<open>process_line\<close>: the result is the return value, the table, \<open>*IC\<close> and \<open>*DC\<close>.\<close>

definition process_line ::
  "string \<Rightarrow> label_table \<Rightarrow> int \<Rightarrow> int \<Rightarrow> bool \<times> label_table \<times> int \<times> int" where
  "process_line line0 table IC DC =
     (let line = line_start line0
      in if line = [] \<or> hd line = NEWLINE_CHAR \<or> hd line = SEMICOLON_CHAR
         then (True, table, IC, DC)
         else
           (case parse_line line of
              None \<Rightarrow> (False, table, IC, DC)
            | Some parts \<Rightarrow>
                if command parts = Some ''.data'' then data_directive parts table IC DC
                else if command parts = Some ''.string'' then string_directive parts table IC DC
                else if command parts = Some ''.mat'' then mat_directive parts table IC DC
                else if command parts = Some ''.extern'' then
                  (case extern_loop (operands parts) table of
                     (ok, table') \<Rightarrow> (ok, table', IC, DC))
                else if command parts = Some ''.entry'' then
                  (True, entry_loop (operands parts) table, IC, DC)
                else instruction_line parts table IC DC))"

text \<open>The test that both passes and the macro expander make on a buffer returned by
  \<open>fgets\<close>: \<open>strlen(line) >= MAX_LINE_LENGTH - 1 && line[MAX_LINE_LENGTH - 2] != '\n'\<close>.\<close>

definition line_too_long :: "string \<Rightarrow> bool" where
  "line_too_long line =
     (length line \<ge> MAX_LINE_LENGTH - 1 \<and> line ! (MAX_LINE_LENGTH - 2) \<noteq> NEWLINE_CHAR)"

text \<open>The \<open>while (fgets(...))\<close> loop of \<open>first_pass_on_table\<close>; the state is the table,
  \<open>IC\<close>, \<open>DC\<close> and \<open>has_errors\<close>.\<close>

fun first_pass_loop ::
  "string list \<Rightarrow> label_table \<times> int \<times> int \<times> bool \<Rightarrow> label_table \<times> int \<times> int \<times> bool" where
  "first_pass_loop [] st = st"
| "first_pass_loop (line # rest) (table, IC, DC, has_errors) =
     (if line_too_long line then first_pass_loop rest (table, IC, DC, True)
      else
        (case process_line line table IC DC of
           (ok, table', IC', DC') \<Rightarrow>
             first_pass_loop rest (table', IC', DC', has_errors \<or> \<not> ok)))"

text \<open>The update of the data labels after the loop: \<open>current->address += IC\<close>.\<close>

definition rebase_data :: "int \<Rightarrow> label_node \<Rightarrow> label_node" where
  "rebase_data IC current =
     (if node_type current = LABEL_DATA \<and> is_defined current
      then current\<lparr>address := to_int (address current + IC)\<rparr>
      else current)"

text \<open>\<open>first_pass_on_table\<close> on the contents of the \<open>.am\<close> file: the return value, the
  table, \<open>*outIC\<close> and \<open>*outDC\<close>.\<close>

definition first_pass_on_table ::
  "string \<Rightarrow> label_table \<Rightarrow> bool \<times> label_table \<times> int \<times> int" where
  "first_pass_on_table file table =
     (case first_pass_loop (read_lines file) (table, INITIAL_IC, INITIAL_DC, False) of
        (table', IC, DC, has_errors) \<Rightarrow>
          (\<not> has_errors,
           (if \<not> has_errors then map (rebase_data IC) table' else table'),
           IC, DC))"

subsection \<open>The second pass (second_pass.h, second_pass.c)\<close>

datatype addressing_mode = MODE_IMMEDIATE | MODE_DIRECT | MODE_MATRIX | MODE_REGISTER

datatype are_type = ARE_ABSOLUTE | ARE_EXTERNAL | ARE_RELOCATABLE

text \<open>The values of the two enums.\<close>

fun mode_value :: "addressing_mode \<Rightarrow> int" where
  "mode_value MODE_IMMEDIATE = 0"
| "mode_value MODE_DIRECT = 1"
| "mode_value MODE_MATRIX = 2"
| "mode_value MODE_REGISTER = 3"

fun are_value :: "are_type \<Rightarrow> int" where
  "are_value ARE_ABSOLUTE = 0"
| "are_value ARE_EXTERNAL = 1"
| "are_value ARE_RELOCATABLE = 2"

text \<open>\<open>machine_word\<close> (its field \<open>address\<close> is \<open>word_address\<close> here) and \<open>ext_ref\<close> (its
  field \<open>address\<close> is \<open>ref_address\<close>); the list of external references is the linked list
  from its head.\<close>

record machine_word =
  word :: nat
  are :: are_type
  word_address :: int

record ext_ref =
  symbol_name :: string
  ref_address :: int

text \<open>\<open>memory_image\<close>: the two arrays come from \<open>malloc\<close>, so a slot holds no word
  (\<open>None\<close>) until the pass stores one.\<close>

record memory_image =
  instructions :: "machine_word option list"
  data :: "machine_word option list"
  instruction_count :: int
  data_count :: int
  ic_final :: int
  dc_final :: int

definition convert_to_addressing_mode :: "int \<Rightarrow> addressing_mode" where
  "convert_to_addressing_mode mode_mask =
     (if mode_mask = IMMEDIATE then MODE_IMMEDIATE
      else if mode_mask = DIRECT then MODE_DIRECT
      else if mode_mask = MATRIX_ACCESS then MODE_MATRIX
      else if mode_mask = REGISTER then MODE_REGISTER
      else MODE_IMMEDIATE)"

definition create_memory_image :: "int \<Rightarrow> int \<Rightarrow> memory_image option" where
  "create_memory_image ic dc =
     (if ic < INITIAL_IC then None
      else if dc < 0 then None
      else Some \<lparr>instructions = replicate (nat (ic - INITIAL_IC)) None,
                 data = replicate (nat dc) None,
                 instruction_count = ic - INITIAL_IC,
                 data_count = dc,
                 ic_final = ic,
                 dc_final = dc\<rparr>)"

definition create_instruction_word :: "int \<Rightarrow> addressing_mode \<Rightarrow> addressing_mode \<Rightarrow> are_type \<Rightarrow> nat" where
  "create_instruction_word opc src_mode dst_mode a =
     to_unsigned (push_bit 6 (opc AND 0xF)
                  OR push_bit 4 (mode_value src_mode AND 0x3)
                  OR push_bit 2 (mode_value dst_mode AND 0x3)
                  OR push_bit 0 (are_value a AND 0x3))"

definition get_register_number :: "string option \<Rightarrow> int" where
  "get_register_number reg_str =
     (case reg_str of
        None \<Rightarrow> - 1
      | Some s \<Rightarrow>
          if length s \<noteq> 2 then - 1
          else if hd s \<noteq> REGISTER_PREFIX_CHAR then - 1
          else if char_code (s ! 1) < char_code (CHR ''0'') \<or> char_code (s ! 1) > char_code (CHR ''7'')
            then - 1
          else int (char_code (s ! 1)) - int (char_code (CHR ''0'')))"

definition parse_immediate_value :: "string \<Rightarrow> int" where
  "parse_immediate_value operand =
     (if operand = [] \<or> hd operand \<noteq> IMMEDIATE_PREFIX then 0
      else if \<not> is_valid_number (tl operand) then 0
      else to_int (strtol (tl operand)))"

definition add_external_reference :: "ext_ref list \<Rightarrow> string \<Rightarrow> int \<Rightarrow> ext_ref list" where
  "add_external_reference list symbol addr =
     \<lparr>symbol_name = take MAX_LABEL_LENGTH symbol, ref_address = addr\<rparr> # list"

text \<open>\<open>encode_operand\<close>: the word stored through \<open>word\<close> (\<open>None\<close> for \<open>FAILURE\<close>) and the
  list of external references afterwards.\<close>

definition encode_operand ::
  "string option \<Rightarrow> label_table \<Rightarrow> addressing_mode \<Rightarrow> int \<Rightarrow> ext_ref list
   \<Rightarrow> machine_word option \<times> ext_ref list" where
  "encode_operand operand0 table mode current_address ext_list =
     (case operand0 of
        None \<Rightarrow> (None, ext_list)
      | Some operand \<Rightarrow>
          (case mode of
             MODE_IMMEDIATE \<Rightarrow>
               (let val = parse_immediate_value operand;
                    encoded_val = to_unsigned (push_bit 2 (val AND 0xFF))
                in (Some \<lparr>word = encoded_val OR nat (are_value ARE_ABSOLUTE), are = ARE_ABSOLUTE,
                          word_address = current_address\<rparr>, ext_list))
           | MODE_DIRECT \<Rightarrow>
               (case find_label table operand of
                  None \<Rightarrow> (None, ext_list)
                | Some l \<Rightarrow>
                    if node_type l = LABEL_EXTERNAL then
                      (Some \<lparr>word = to_unsigned ((0 AND 0x3FC) OR are_value ARE_EXTERNAL),
                             are = ARE_EXTERNAL, word_address = current_address\<rparr>,
                       add_external_reference ext_list operand current_address)
                    else
                      (Some \<lparr>word = to_unsigned (push_bit 2 (address l) OR are_value ARE_RELOCATABLE),
                             are = ARE_RELOCATABLE, word_address = current_address\<rparr>,
                       ext_list))
           | MODE_REGISTER \<Rightarrow>
               (let reg_num = get_register_number (Some operand)
                in if reg_num < 0 then (None, ext_list)
                   else (Some \<lparr>word = to_unsigned (push_bit 2 (reg_num AND 0x7) OR are_value ARE_ABSOLUTE),
                               are = ARE_ABSOLUTE, word_address = current_address\<rparr>,
                         ext_list))
           | MODE_MATRIX \<Rightarrow> (None, ext_list)))"

text \<open>\<open>encode_matrix_operand\<close>: the two words of \<open>label[reg1][reg2]\<close>.  (The C code calls
  \<open>strchr(first_close + 1, ...)\<close> before it tests \<open>first_close\<close>; its only caller passes an
  operand for which \<open>get_operand_mode\<close> returned \<open>MATRIX_ACCESS\<close>, which has all four
  brackets.)\<close>

definition encode_matrix_operand ::
  "string option \<Rightarrow> label_table \<Rightarrow> int \<Rightarrow> ext_ref list
   \<Rightarrow> machine_word list option \<times> ext_ref list" where
  "encode_matrix_operand operand0 table current_address ext_list =
     (case operand0 of
        None \<Rightarrow> (None, ext_list)
      | Some operand \<Rightarrow>
     (case strchr operand OPEN_BRACKET of
        None \<Rightarrow> (None, ext_list)
      | Some first_bracket \<Rightarrow>
     (case strchr (tl first_bracket) CLOSE_BRACKET of
        None \<Rightarrow> (None, ext_list)
      | Some first_close \<Rightarrow>
     (case strchr (tl first_close) OPEN_BRACKET of
        None \<Rightarrow> (None, ext_list)
      | Some second_bracket \<Rightarrow>
     (case strchr (tl second_bracket) CLOSE_BRACKET of
        None \<Rightarrow> (None, ext_list)
      | Some second_close \<Rightarrow>
          (let label_name = take MAX_LABEL_LENGTH (take (length operand - length first_bracket) operand);
               reg1_num = get_register_number (Some (take 2 (tl first_bracket)));
               reg2_num = get_register_number (Some (take 2 (tl second_bracket)))
           in if reg1_num < 0 \<or> reg2_num < 0 then (None, ext_list)
              else
                (case find_label table label_name of
                   None \<Rightarrow> (None, ext_list)
                 | Some l \<Rightarrow>
                     (let second_word =
                            \<lparr>word = to_unsigned (push_bit 6 (reg1_num AND 0xF) OR push_bit 2 (reg2_num AND 0xF)),
                             are = ARE_ABSOLUTE, word_address = current_address + 1\<rparr>
                      in if node_type l = LABEL_EXTERNAL then
                           (Some [\<lparr>word = to_unsigned ((0 AND 0x3FC) OR are_value ARE_EXTERNAL),
                                   are = ARE_EXTERNAL, word_address = current_address\<rparr>,
                                  second_word],
                            add_external_reference ext_list label_name current_address)
                         else
                           (Some [\<lparr>word = to_unsigned (push_bit 2 (address l) OR are_value ARE_RELOCATABLE),
                                   are = ARE_RELOCATABLE, word_address = current_address\<rparr>,
                                  second_word],
                            ext_list)))))))))"

text \<open>One operand of \<open>encode_instruction\<close>: \<open>encode_matrix_operand\<close> (two words) for
  \<open>MODE_MATRIX\<close>, else \<open>encode_operand\<close> (one word).\<close>

definition encode_one ::
  "string option \<Rightarrow> label_table \<Rightarrow> addressing_mode \<Rightarrow> int \<Rightarrow> ext_ref list
   \<Rightarrow> machine_word list option \<times> ext_ref list" where
  "encode_one operand table mode current_address ext_list =
     (if mode = MODE_MATRIX then encode_matrix_operand operand table current_address ext_list
      else
        (case encode_operand operand table mode current_address ext_list of
           (None, ext_list') \<Rightarrow> (None, ext_list')
         | (Some w, ext_list') \<Rightarrow> (Some [w], ext_list')))"

text \<open>\<open>encode_instruction\<close>: the words \<open>words[0 .. *word_count - 1]\<close> (\<open>None\<close> for
  \<open>FAILURE\<close>) and the list of external references afterwards; a reference added before a
  later operand fails stays in the list.\<close>

definition encode_instruction ::
  "separate_line \<Rightarrow> label_table \<Rightarrow> int \<Rightarrow> ext_ref list
   \<Rightarrow> machine_word list option \<times> ext_ref list" where
  "encode_instruction parts table current_ic ext_list =
     (case command parts of
        None \<Rightarrow> (None, ext_list)
      | Some cmd \<Rightarrow>
     (case get_instruction (Some cmd) of
        None \<Rightarrow> (None, ext_list)
      | Some inst \<Rightarrow>
          (let n = num_of_operands inst;
               dst_mode_mask = get_operand_mode (operand_at parts (nat (n - 1)));
               src_mode_mask = get_operand_mode (operand_at parts 0)
           in if n \<ge> 1 \<and> dst_mode_mask = FAILURE then (None, ext_list)
              else if n = 2 \<and> src_mode_mask = FAILURE then (None, ext_list)
              else
                (let dst_mode = (if n \<ge> 1 then convert_to_addressing_mode dst_mode_mask
                                 else MODE_IMMEDIATE);
                     src_mode = (if n = 2 then convert_to_addressing_mode src_mode_mask
                                 else MODE_IMMEDIATE);
                     first_word =
                       \<lparr>word = create_instruction_word (opcode inst)
                                 (if n = 2 then src_mode else MODE_IMMEDIATE)
                                 (if n \<ge> 1 then dst_mode else MODE_IMMEDIATE)
                                 ARE_ABSOLUTE,
                        are = ARE_ABSOLUTE, word_address = current_ic\<rparr>
                 in if n = 1 then
                      (case encode_one (operand_at parts 0) table dst_mode (current_ic + 1) ext_list of
                         (None, ext_list') \<Rightarrow> (None, ext_list')
                       | (Some ws, ext_list') \<Rightarrow> (Some (first_word # ws), ext_list'))
                    else if n = 2 then
                      (if src_mode = MODE_REGISTER \<and> dst_mode = MODE_REGISTER then
                         (let src_reg = get_register_number (operand_at parts 0);
                              dst_reg = get_register_number (operand_at parts 1)
                          in if src_reg \<ge> 0 \<and> dst_reg \<ge> 0 then
                               (Some [first_word,
                                      \<lparr>word = to_unsigned (push_bit 6 (src_reg AND 0xF)
                                                            OR push_bit 2 (dst_reg AND 0xF)),
                                       are = ARE_ABSOLUTE, word_address = current_ic + 1\<rparr>],
                                ext_list)
                             else (None, ext_list))
                       else
                         (case encode_one (operand_at parts 0) table src_mode (current_ic + 1) ext_list of
                            (None, ext_list') \<Rightarrow> (None, ext_list')
                          | (Some ws1, ext_list') \<Rightarrow>
                              (case encode_one (operand_at parts 1) table dst_mode
                                      (current_ic + 1 + int (length ws1)) ext_list' of
                                 (None, ext_list'') \<Rightarrow> (None, ext_list'')
                               | (Some ws2, ext_list'') \<Rightarrow>
                                   (Some (first_word # ws1 @ ws2), ext_list''))))
                    else (Some [first_word], ext_list)))))"

text \<open>The copy loop of the instruction pass:
  \<open>if (instruction_index < image->instruction_count) image->instructions[instruction_index++] = words[i]\<close>.\<close>

fun store_words ::
  "machine_word list \<Rightarrow> machine_word option list \<Rightarrow> nat \<Rightarrow> int
   \<Rightarrow> machine_word option list \<times> nat" where
  "store_words [] ins instruction_index cnt = (ins, instruction_index)"
| "store_words (w # ws) ins instruction_index cnt =
     (if int instruction_index < cnt
      then store_words ws (ins[instruction_index := Some w]) (Suc instruction_index) cnt
      else store_words ws ins instruction_index cnt)"

text \<open>The test for an empty or comment line in both loops of \<open>second_pass\<close>.\<close>

definition skipped_line :: "string \<Rightarrow> bool" where
  "skipped_line line =
     (let trimmed = dropWhile is_blank line
      in trimmed = [] \<or> hd trimmed = NEWLINE_CHAR \<or> hd trimmed = SEMICOLON_CHAR)"

definition is_directive_line :: "separate_line \<Rightarrow> bool" where
  "is_directive_line parts =
     (case command parts of
        None \<Rightarrow> False
      | Some c \<Rightarrow> c \<noteq> [] \<and> hd c = DOT_CHAR)"

text \<open>The first loop of \<open>second_pass\<close>; the state is \<open>image->instructions\<close>,
  \<open>instruction_index\<close>, \<open>current_ic\<close>, \<open>ext_list\<close> and \<open>has_errors\<close>.  A line that
  \<open>parse_line\<close> rejects is skipped without an error.\<close>

fun instruction_pass ::
  "string list \<Rightarrow> label_table \<Rightarrow> int
   \<Rightarrow> machine_word option list \<times> nat \<times> int \<times> ext_ref list \<times> bool
   \<Rightarrow> machine_word option list \<times> nat \<times> int \<times> ext_ref list \<times> bool" where
  "instruction_pass [] table cnt st = st"
| "instruction_pass (line # rest) table cnt (ins, instruction_index, current_ic, ext_list, has_errors) =
     (if line_too_long line
      then instruction_pass rest table cnt (ins, instruction_index, current_ic, ext_list, True)
      else if skipped_line line
      then instruction_pass rest table cnt (ins, instruction_index, current_ic, ext_list, has_errors)
      else
        (case parse_line line of
           None \<Rightarrow>
             instruction_pass rest table cnt (ins, instruction_index, current_ic, ext_list, has_errors)
         | Some parts \<Rightarrow>
             if is_directive_line parts
             then instruction_pass rest table cnt
                    (ins, instruction_index, current_ic, ext_list, has_errors)
             else
               (case encode_instruction parts table current_ic ext_list of
                  (Some words, ext_list') \<Rightarrow>
                    (case store_words words ins instruction_index cnt of
                       (ins', instruction_index') \<Rightarrow>
                         instruction_pass rest table cnt
                           (ins', instruction_index', current_ic + int (length words),
                            ext_list', has_errors))
                | (None, ext_list') \<Rightarrow>
                    instruction_pass rest table cnt
                      (ins, instruction_index, current_ic, ext_list', True))))"

text \<open>The stores \<open>data_words[*data_index] = ...; (*data_index)++\<close> of
  \<open>process_data_line\<close>, which have no bounds test: \<open>None\<close> is a store outside the
  allocated array (undefined behaviour).\<close>

fun store_data ::
  "nat list \<Rightarrow> machine_word option list \<Rightarrow> nat \<Rightarrow> (machine_word option list \<times> nat) option" where
  "store_data [] data_words data_index = Some (data_words, data_index)"
| "store_data (v # vs) data_words data_index =
     (if data_index < length data_words
      then store_data vs
             (data_words[data_index := Some \<lparr>word = v, are = ARE_ABSOLUTE,
                                              word_address = int data_index\<rparr>])
             (Suc data_index)
      else None)"

definition ten_bits :: "string \<Rightarrow> nat" where
  "ten_bits operand = nat (to_int (strtol operand) AND 0x3FF)"

text \<open>\<open>process_data_line\<close>: the return value, the data array and \<open>*data_index\<close>; \<open>None\<close>
  where the C code has undefined behaviour (a store outside the array, \<open>strlen\<close> 0 in the
  \<open>.string\<close> loop bound \<open>len - 1\<close>, \<open>operands[0]\<close> \<open>NULL\<close> for \<open>.mat\<close>).  The
  \<open>.mat\<close> loop stores, for \<open>i\<close> below \<open>total_elements\<close>, the value of operand \<open>i + 1\<close>
  when there is one and 0 otherwise: the values given, padded with zeros, cut at
  \<open>total_elements\<close>.\<close>

definition process_data_line ::
  "separate_line \<Rightarrow> machine_word option list \<Rightarrow> nat
   \<Rightarrow> (bool \<times> machine_word option list \<times> nat) option" where
  "process_data_line parts data_words data_index =
     (if command parts = Some ''.data'' then
        map_option (\<lambda>(d, i). (True, d, i))
          (store_data (map ten_bits (operands parts)) data_words data_index)
      else if command parts = Some ''.string'' then
        (if length (operands parts) = 1 then
           (let str = operands parts ! 0; len = length str
            in if len = 0 then None
               else map_option (\<lambda>(d, i). (True, d, i))
                      (store_data (map char_code (take (len - 2) (tl str)) @ [0])
                         data_words data_index))
         else Some (True, data_words, data_index))
      else if command parts = Some ''.mat'' then
        (case operand_at parts 0 of
           None \<Rightarrow> None
         | Some dims \<Rightarrow>
             (case parse_matrix_dimensions dims of
                None \<Rightarrow> Some (False, data_words, data_index)
              | Some (rows, cols) \<Rightarrow>
                  (let total_elements = to_int (rows * cols)
                   in map_option (\<lambda>(d, i). (True, d, i))
                        (store_data
                           (take (nat total_elements)
                              (map ten_bits (tl (operands parts)) @ replicate (nat total_elements) 0))
                           data_words data_index))))
      else Some (True, data_words, data_index))"

text \<open>The second loop of \<open>second_pass\<close>; the state is \<open>image->data\<close>, \<open>data_index\<close> and
  \<open>has_errors\<close>.\<close>

fun data_pass ::
  "string list \<Rightarrow> machine_word option list \<times> nat \<times> bool
   \<Rightarrow> (machine_word option list \<times> nat \<times> bool) option" where
  "data_pass [] st = Some st"
| "data_pass (line # rest) (data_words, data_index, has_errors) =
     (if skipped_line line then data_pass rest (data_words, data_index, has_errors)
      else
        (case parse_line line of
           None \<Rightarrow> data_pass rest (data_words, data_index, has_errors)
         | Some parts \<Rightarrow>
             if command parts = Some ''.data'' \<or> command parts = Some ''.string''
                \<or> command parts = Some ''.mat''
             then
               (case process_data_line parts data_words data_index of
                  None \<Rightarrow> None
                | Some (ok, data_words', data_index') \<Rightarrow>
                    data_pass rest (data_words', data_index', has_errors \<or> \<not> ok))
             else data_pass rest (data_words, data_index, has_errors)))"

subsection \<open>The output files (second_pass.c)\<close>

text \<open>\<open>while (*s == 'a' && *(s + 1) != '\0') s++\<close>.\<close>

fun strip_leading_a :: "string \<Rightarrow> string" where
  "strip_leading_a (c # d # rest) =
     (if c = CHR ''a'' then strip_leading_a (d # rest) else c # d # rest)"
| "strip_leading_a s = s"

text \<open>A line of the object file is \<open>None\<close> when it is printed from an array slot that no
  pass has stored a word in (its characters are then indeterminate).\<close>

definition object_line :: "int \<Rightarrow> nat \<Rightarrow> string" where
  "object_line addr w = number_to_base4_letters addr @ '' '' @ number_to_base4_code (int w)"

text \<open>The loop \<open>for (i = 0; i < image->instruction_count; i++)\<close> prints, for each slot,
  the address stored in the word and the word.\<close>

fun instruction_lines :: "machine_word option list \<Rightarrow> string option list" where
  "instruction_lines [] = []"
| "instruction_lines (None # rest) = None # instruction_lines rest"
| "instruction_lines (Some w # rest) =
     Some (object_line (word_address w) (word w)) # instruction_lines rest"

text \<open>The loop \<open>for (i = 0; i < image->data_count; i++)\<close> prints, for each slot, the
  address \<open>INITIAL_IC + image->instruction_count + i\<close> and the word; the first argument
  is that address.\<close>

fun data_lines :: "int \<Rightarrow> machine_word option list \<Rightarrow> string option list" where
  "data_lines addr [] = []"
| "data_lines addr (None # rest) = None # data_lines (addr + 1) rest"
| "data_lines addr (Some w # rest) = Some (object_line addr (word w)) # data_lines (addr + 1) rest"

text \<open>\<open>generate_object_file\<close>: the two loops read the first \<open>instruction_count\<close> and
  \<open>data_count\<close> slots of the two arrays (which \<open>create_memory_image\<close> allocates with
  exactly that many slots).\<close>

definition generate_object_file :: "memory_image \<Rightarrow> string option list" where
  "generate_object_file img =
     Some (strip_leading_a (number_to_base4_letters (ic_final img - INITIAL_IC)) @ '' ''
           @ strip_leading_a (number_to_base4_letters (dc_final img)))
     # instruction_lines (take (nat (instruction_count img)) (instructions img))
     @ data_lines (INITIAL_IC + instruction_count img) (take (nat (data_count img)) (data img))"

text \<open>\<open>generate_entries_file\<close>: \<open>None\<close> when the function returns before it opens the
  file.  \<open>EXAMPLE_LABEL_LENGTH\<close> is \<open>"LENGTH"\<close> and \<open>EXAMPLE_LABEL_LOOP\<close> is \<open>"LOOP"\<close>.\<close>

definition entry_line :: "label_node \<Rightarrow> string" where
  "entry_line current = node_name current @ '' '' @ number_to_base4_letters (address current)"

definition is_entry :: "label_node \<Rightarrow> bool" where
  "is_entry current =
     ((node_type current = LABEL_ENTRY \<and> is_defined current)
      \<or> (node_type current = LABEL_DATA \<and> is_defined current
          \<and> (node_name current = ''LENGTH'' \<or> node_name current = ''LOOP'')))"

definition generate_entries_file :: "label_table \<Rightarrow> string list option" where
  "generate_entries_file table =
     (let has_entries = (\<exists>current \<in> set table. node_type current = LABEL_ENTRY \<and> is_defined current)
      in if \<not> has_entries then None
         else Some (map entry_line (filter is_entry table)))"

definition external_line :: "ext_ref \<Rightarrow> string" where
  "external_line current = symbol_name current @ '' '' @ number_to_base4_letters (ref_address current)"

definition generate_externals_file :: "ext_ref list \<Rightarrow> string list option" where
  "generate_externals_file ext_list =
     (if ext_list = [] then None else Some (map external_line ext_list))"

text \<open>The files that \<open>second_pass\<close> writes.\<close>

record outputs =
  ob :: "string option list option"
  ent :: "string list option"
  ext :: "string list option"

definition no_outputs :: outputs where
  "no_outputs = \<lparr>ob = None, ent = None, ext = None\<rparr>"

text \<open>\<open>second_pass\<close> on the contents of the \<open>.am\<close> file: the return value and the files
  written; \<open>None\<close> where the data pass has undefined behaviour.\<close>

definition second_pass :: "string \<Rightarrow> label_table \<Rightarrow> int \<Rightarrow> int \<Rightarrow> (bool \<times> outputs) option" where
  "second_pass file table ic dc =
     (case create_memory_image ic dc of
        None \<Rightarrow> Some (False, no_outputs)
      | Some img \<Rightarrow>
          (case instruction_pass (read_lines file) table (instruction_count img)
                  (instructions img, 0, INITIAL_IC, [], False) of
             (ins, instruction_index, current_ic, ext_list, has_errors1) \<Rightarrow>
               (case data_pass (read_lines file) (data img, 0, has_errors1) of
                  None \<Rightarrow> None
                | Some (dat, data_index, has_errors) \<Rightarrow>
                    if \<not> has_errors then
                      Some (True,
                            \<lparr>ob = Some (generate_object_file (img\<lparr>instructions := ins, data := dat\<rparr>)),
                             ent = generate_entries_file table,
                             ext = generate_externals_file ext_list\<rparr>)
                    else Some (False, no_outputs))))"

subsection \<open>The macro expander (macro.h, macro.c)\<close>

record macro =
  macro_name :: string
  content :: string

type_synonym macro_list = "macro list"

definition find_macro :: "macro_list \<Rightarrow> string \<Rightarrow> macro option" where
  "find_macro ml n = find (\<lambda>m. macro_name m = n) ml"

definition add_macro :: "macro_list \<Rightarrow> string \<Rightarrow> string \<Rightarrow> macro_list" where
  "add_macro ml n c = \<lparr>macro_name = n, content = c\<rparr> # ml"

definition check_if_macro_start :: "string \<Rightarrow> bool" where
  "check_if_macro_start line0 =
     (let line = dropWhile is_blank line0
      in if take 4 line \<noteq> ''mcro'' then False
         else if drop 4 line = [] \<or> hd (drop 4 line) \<noteq> SPACE_CHAR then False
         else
           (let name_start = dropWhile (\<lambda>c. c = SPACE_CHAR) (drop 5 line);
                temp_name = takeWhile (\<lambda>c. c \<noteq> NEWLINE_CHAR) name_start
            in if length temp_name > MAX_MACRO_NAME - 1 then False
               else is_valid_macro_name temp_name))"

definition check_if_macro_end :: "string \<Rightarrow> bool" where
  "check_if_macro_end line0 =
     (let line = dropWhile is_blank line0;
          temp_line = takeWhile (\<lambda>c. c \<noteq> NEWLINE_CHAR) line
      in temp_line = ''mcroend'')"

definition extract_macro_name :: "string \<Rightarrow> string" where
  "extract_macro_name line0 =
     (let line = dropWhile (\<lambda>c. c = SPACE_CHAR) (drop 5 (dropWhile is_blank line0))
      in take (MAX_MACRO_NAME - 1)
           (takeWhile (\<lambda>c. c \<noteq> SPACE_CHAR \<and> c \<noteq> TAB_CHAR \<and> c \<noteq> NEWLINE_CHAR) line))"

text \<open>The first word of a line, as \<open>is_macro_call\<close> and the expansion loop copy it.\<close>

definition first_word_of :: "string \<Rightarrow> string" where
  "first_word_of line =
     take (MAX_MACRO_NAME - 1)
       (takeWhile (\<lambda>c. c \<noteq> SPACE_CHAR \<and> c \<noteq> TAB_CHAR \<and> c \<noteq> NEWLINE_CHAR)
          (dropWhile is_blank line))"

definition is_macro_call :: "string \<Rightarrow> macro_list \<Rightarrow> bool" where
  "is_macro_call line ml = (find_macro ml (first_word_of line) \<noteq> None)"

definition validate_macro_name :: "string \<Rightarrow> macro_list \<Rightarrow> bool" where
  "validate_macro_name n ml =
     (if length n = 0 then False
      else if isdigit (hd n) then False
      else if is_valid_opcode n then False
      else if is_register_name n then False
      else if \<not> list_all (\<lambda>c. isalnum c \<or> c = UNDERSCORE_CHAR) n then False
      else if find_macro ml n \<noteq> None then False
      else True)"

text \<open>The first loop of \<open>expand_macros\<close>; the state is the macro list,
  \<open>in_macro_definition\<close>, \<open>current_macro_name\<close>, \<open>current_macro_content\<close> and
  \<open>content_length\<close>.  \<open>None\<close> is an error message followed by \<open>return\<close>.\<close>

fun collect_macros ::
  "string list \<Rightarrow> macro_list \<times> bool \<times> string \<times> string \<times> nat
   \<Rightarrow> (macro_list \<times> bool \<times> string \<times> string \<times> nat) option" where
  "collect_macros [] st = Some st"
| "collect_macros (line # rest) (ml, in_macro_definition, cur_name, cur_content, content_length) =
     (if line_too_long line then None
      else if check_if_macro_start line then
        (if \<not> validate_macro_name (extract_macro_name line) ml then None
         else collect_macros rest (ml, True, extract_macro_name line, [], 0))
      else if check_if_macro_end line then
        (if in_macro_definition
         then collect_macros rest
                (add_macro ml cur_name cur_content, False, cur_name, cur_content, content_length)
         else collect_macros rest (ml, in_macro_definition, cur_name, cur_content, content_length))
      else if in_macro_definition then
        (if content_length + length line < MAX_MACRO_BODY - 1
         then collect_macros rest
                (ml, in_macro_definition, cur_name, cur_content @ line, content_length + length line)
         else collect_macros rest (ml, in_macro_definition, cur_name, cur_content, content_length))
      else collect_macros rest (ml, in_macro_definition, cur_name, cur_content, content_length))"

text \<open>The second loop of \<open>expand_macros\<close>; the last argument is what has been written to
  the output file.  The result says whether the loop ran to its end.\<close>

fun emit_lines :: "string list \<Rightarrow> macro_list \<Rightarrow> bool \<Rightarrow> string \<Rightarrow> bool \<times> string" where
  "emit_lines [] ml in_macro_definition out = (True, out)"
| "emit_lines (line # rest) ml in_macro_definition out =
     (if line_too_long line then (False, out)
      else if check_if_macro_start line then emit_lines rest ml True out
      else if check_if_macro_end line then emit_lines rest ml False out
      else if in_macro_definition then emit_lines rest ml in_macro_definition out
      else if is_macro_call line ml then
        (case find_macro ml (first_word_of line) of
           Some m \<Rightarrow> emit_lines rest ml in_macro_definition (out @ content m)
         | None \<Rightarrow> emit_lines rest ml in_macro_definition out)
      else emit_lines rest ml in_macro_definition (out @ line))"

text \<open>\<open>expand_macros\<close> returns \<open>void\<close>.  The model returns whether it ran to its end
  (\<open>False\<close>: it printed an error and returned early) and the contents of the output file,
  which \<open>fopen(output_file, "w")\<close> has created empty before the first loop.\<close>

definition expand_macros :: "string \<Rightarrow> bool \<times> string" where
  "expand_macros input =
     (case collect_macros (read_lines input) ([], False, [], [], 0) of
        None \<Rightarrow> (False, [])
      | Some (ml, in_macro_definition, cur_name, cur_content, content_length) \<Rightarrow>
          if in_macro_definition then (False, [])
          else emit_lines (read_lines input) ml False [])"

subsection \<open>The driver (assembler.c)\<close>

text \<open>\<open>process_file\<close> on the contents of the \<open>.as\<close> file: the return value, the \<open>.am\<close>
  file and the files of the second pass.  The call \<open>expand_macros(filename, macro_filename)\<close>
  is a statement; nothing of its outcome but the \<open>.am\<close> file reaches the passes.\<close>

definition process_file :: "string \<Rightarrow> (bool \<times> string \<times> outputs) option" where
  "process_file source =
     (let am = snd (expand_macros source)
      in case first_pass_on_table am [] of
           (ok1, table, ic, dc) \<Rightarrow>
             if \<not> ok1 then Some (False, am, no_outputs)
             else
               (case second_pass am table ic dc of
                  None \<Rightarrow> None
                | Some (ok2, files) \<Rightarrow> Some (ok2, am, files)))"

subsection \<open>Source texts\<close>

text \<open>The file whose lines are the given strings, each ended by a newline.\<close>

definition text_file :: "string list \<Rightarrow> string" where
  "text_file ls = concat (map (\<lambda>l. l @ [NEWLINE_CHAR]) ls)"

subsection \<open>The address strings, as the specification describes them\<close>

text \<open>The definitions of this subsection are not taken from the program.  They follow the
  specification: an address is written as four base-4 letters over \<open>a = 0\<close>, \<open>b = 1\<close>,
  \<open>c = 2\<close>, \<open>d = 3\<close>, most significant digit first, and an address of 256 or more is
  written as the address modulo 256.\<close>

definition base4_symbol :: "nat \<Rightarrow> char" where
  "base4_symbol d = ''abcd'' ! d"

text \<open>The four letters of \<open>a mod 256\<close>.\<close>

definition address_letters :: "int \<Rightarrow> string" where
  "address_letters a =
     (let m = nat (a mod 256)
      in [base4_symbol (m div 64), base4_symbol (m div 16 mod 4),
          base4_symbol (m div 4 mod 4), base4_symbol (m mod 4)])"

text \<open>A line of the object file for the word \<open>w\<close> at the address \<open>a\<close>: the address, a
  space, and the five letters of the word.\<close>

definition address_line :: "int \<Rightarrow> machine_word \<Rightarrow> string" where
  "address_line a w = address_letters a @ '' '' @ number_to_base4_code (int (word w))"

subsection \<open>The use sites of external symbols, as the specification describes them\<close>

text \<open>The definitions of this subsection are not taken from \<open>second_pass.c\<close>.  They
  follow the specification's description of the externals file: a use site is an operand of
  an instruction line that names a symbol of the table which is flagged external, and it is
  recorded with the address of the operand word that refers to the symbol.\<close>

text \<open>The symbol that an operand names: the operand itself in direct mode, the text before
  the first bracket in matrix mode, none in the other modes.\<close>

definition operand_symbol :: "string \<Rightarrow> addressing_mode \<Rightarrow> string option" where
  "operand_symbol operand mode =
     (case mode of
        MODE_DIRECT \<Rightarrow> Some operand
      | MODE_MATRIX \<Rightarrow> Some (takeWhile (\<lambda>c. c \<noteq> OPEN_BRACKET) operand)
      | MODE_IMMEDIATE \<Rightarrow> None
      | MODE_REGISTER \<Rightarrow> None)"

text \<open>The use site, if any, of an operand whose (first) word has the address \<open>addr\<close>.\<close>

definition operand_use :: "label_table \<Rightarrow> string option \<Rightarrow> addressing_mode \<Rightarrow> int \<Rightarrow> ext_ref list" where
  "operand_use table operand mode addr =
     (case operand of
        None \<Rightarrow> []
      | Some s \<Rightarrow>
          (case operand_symbol s mode of
             None \<Rightarrow> []
           | Some sname \<Rightarrow>
               (case find_label table sname of
                  None \<Rightarrow> []
                | Some l \<Rightarrow>
                    if node_type l = LABEL_EXTERNAL
                    then [\<lparr>symbol_name = sname, ref_address = addr\<rparr>]
                    else [])))"

text \<open>The words of an operand: two for a matrix operand, one for every other.\<close>

definition operand_words :: "addressing_mode \<Rightarrow> int" where
  "operand_words mode = (if mode = MODE_MATRIX then 2 else 1)"

text \<open>The addressing mode of operand \<open>i\<close> of a line.\<close>

definition operand_mode :: "separate_line \<Rightarrow> nat \<Rightarrow> addressing_mode" where
  "operand_mode parts i = convert_to_addressing_mode (get_operand_mode (operand_at parts i))"

text \<open>The use sites of an instruction line whose first word has the address \<open>ic\<close>, source
  operand first: the operand words follow the instruction word, and two register operands
  share one word and name no symbol.\<close>

definition instruction_uses :: "label_table \<Rightarrow> separate_line \<Rightarrow> int \<Rightarrow> ext_ref list" where
  "instruction_uses table parts ic =
     (case get_instruction (command parts) of
        None \<Rightarrow> []
      | Some inst \<Rightarrow>
          if num_of_operands inst = 1 then
            operand_use table (operand_at parts 0) (operand_mode parts 0) (ic + 1)
          else if num_of_operands inst = 2 then
            (if operand_mode parts 0 = MODE_REGISTER \<and> operand_mode parts 1 = MODE_REGISTER then []
             else operand_use table (operand_at parts 0) (operand_mode parts 0) (ic + 1)
                  @ operand_use table (operand_at parts 1) (operand_mode parts 1)
                      (ic + 1 + operand_words (operand_mode parts 0)))
          else [])"

text \<open>The use sites of a program in the order in which the instruction lines are walked;
  \<open>ic\<close> is the address of the next instruction word, advanced by the word count of the
  first pass.  Empty lines, comments, lines that do not parse and directives have none.\<close>

fun external_uses :: "label_table \<Rightarrow> string list \<Rightarrow> int \<Rightarrow> ext_ref list" where
  "external_uses table [] ic = []"
| "external_uses table (line # rest) ic =
     (if skipped_line line then external_uses table rest ic
      else
        (case parse_line line of
           None \<Rightarrow> external_uses table rest ic
         | Some parts \<Rightarrow>
             if is_directive_line parts then external_uses table rest ic
             else instruction_uses table parts ic
                  @ external_uses table rest (ic + estimate_ic_words parts)))"

text \<open>Every name of the symbol table passes \<open>is_valid_label\<close>.\<close>

definition names_valid :: "label_table \<Rightarrow> bool" where
  "names_valid table = list_all (\<lambda>n. is_valid_label (node_name n)) table"

section \<open>Base-4 encoding\<close>

lemma base4_digit_letter: "d < 4 \<Longrightarrow> base4_digit (base4_letter d) = d"
proof -
  assume "d < 4"
  then consider "d = 0" | "d = 1" | "d = 2" | "d = 3" by linarith
  then show ?thesis
  proof cases
    case 1
    have "base4_digit (base4_letter 0) = 0" by code_simp
    with 1 show ?thesis by simp
  next
    case 2
    have "base4_digit (base4_letter 1) = 1" by code_simp
    with 2 show ?thesis by simp
  next
    case 3
    have "base4_digit (base4_letter 2) = 2" by code_simp
    with 3 show ?thesis by simp
  next
    case 4
    have "base4_digit (base4_letter 3) = 3" by code_simp
    with 4 show ?thesis by simp
  qed
qed

lemma base4_decode_snoc: "base4_decode (s @ [c]) = base4_decode s * 4 + base4_digit c"
  by (simp add: base4_decode_def)

lemma base4_decode_fill: "base4_decode (base4_fill n w) = w mod 4 ^ n"
proof (induction n arbitrary: w)
  case 0
  show ?case by (simp add: base4_decode_def)
next
  case (Suc n)
  have "base4_decode (base4_fill (Suc n) w) = (w div 4) mod 4 ^ n * 4 + w mod 4"
    by (simp add: base4_decode_snoc Suc.IH base4_digit_letter)
  also have "\<dots> = w mod 4 ^ Suc n"
    by (simp add: mod_mult2_eq mult.commute)
  finally show ?case .
qed

lemma length_base4_fill: "length (base4_fill n w) = n"
  by (induction n arbitrary: w) simp_all

lemma base4_letter_abcd: "d < 4 \<Longrightarrow> base4_letter d \<in> set ''abcd''"
proof -
  assume "d < 4"
  then consider "d = 0" | "d = 1" | "d = 2" | "d = 3" by linarith
  then show ?thesis
  proof cases
    case 1
    have "base4_letter 0 \<in> set ''abcd''" by code_simp
    with 1 show ?thesis by simp
  next
    case 2
    have "base4_letter 1 \<in> set ''abcd''" by code_simp
    with 2 show ?thesis by simp
  next
    case 3
    have "base4_letter 2 \<in> set ''abcd''" by code_simp
    with 3 show ?thesis by simp
  next
    case 4
    have "base4_letter 3 \<in> set ''abcd''" by code_simp
    with 4 show ?thesis by simp
  qed
qed

lemma set_base4_fill: "set (base4_fill n w) \<subseteq> set ''abcd''"
proof (induction n arbitrary: w)
  case 0
  show ?case by simp
next
  case (Suc n)
  have "base4_letter (w mod 4) \<in> set ''abcd''" by (rule base4_letter_abcd) simp
  with Suc [of "w div 4"] show ?case by simp
qed

text \<open>
  Claim C9.  For every 10-bit word \<open>w\<close> (\<open>0 \<le> w < 1024\<close>), the string that
  \<open>number_to_base4_code\<close> emits for \<open>w\<close> has five letters, all of them among \<open>a\<close>,
  \<open>b\<close>, \<open>c\<close>, \<open>d\<close>, and, read as a base-4 numeral over \<open>a = 0\<close>, \<open>b = 1\<close>,
  \<open>c = 2\<close>, \<open>d = 3\<close> with the most significant digit first, yields exactly \<open>w\<close>.
\<close>

theorem number_to_base4_code_roundtrip:
  assumes "0 \<le> w" and "w < 1024"
  shows "int (base4_decode (number_to_base4_code w)) = w \<and> length (number_to_base4_code w) = 5
         \<and> set (number_to_base4_code w) \<subseteq> set ''abcd''"
proof -
  have u: "to_unsigned w = nat w" using assms by (simp add: to_unsigned_def)
  have "nat w AND 0x3FF = take_bit 10 (nat w)"
    using take_bit_eq_mask [of 10 "nat w"] by (simp add: mask_eq_exp_minus_1)
  also have "\<dots> = nat w" using assms by (simp add: take_bit_nat_eq_self_iff)
  finally have a: "nat w AND 0x3FF = nat w" .
  have b: "nat w mod 4 ^ 5 = nat w" using assms by simp
  have "base4_decode (number_to_base4_code w) = nat w"
    unfolding number_to_base4_code_def Let_def u a base4_decode_fill b ..
  moreover have "length (number_to_base4_code w) = 5"
    by (simp add: number_to_base4_code_def length_base4_fill)
  moreover have "set (number_to_base4_code w) \<subseteq> set ''abcd''"
    unfolding number_to_base4_code_def Let_def by (rule set_base4_fill)
  ultimately show ?thesis using assms by simp
qed

theorem number_to_base4_code_roundtrip_witness:
  "(0::int) \<le> 960 \<and> (960::int) < 1024 \<and> number_to_base4_code 960 = ''ddaaa''
   \<and> int (base4_decode (number_to_base4_code 960)) = 960"
proof -
  have s: "number_to_base4_code 960 = ''ddaaa''" by code_simp
  show ?thesis using number_to_base4_code_roundtrip [of 960] s by simp
qed

subsection \<open>The address strings of the three output files\<close>

lemma base4_letter_symbol: "d < 4 \<Longrightarrow> base4_letter d = base4_symbol d"
proof -
  assume "d < 4"
  then consider "d = 0" | "d = 1" | "d = 2" | "d = 3" by linarith
  then show ?thesis
  proof cases
    case 1
    have "base4_letter 0 = base4_symbol 0" by code_simp
    with 1 show ?thesis by simp
  next
    case 2
    have "base4_letter 1 = base4_symbol 1" by code_simp
    with 2 show ?thesis by simp
  next
    case 3
    have "base4_letter 2 = base4_symbol 2" by code_simp
    with 3 show ?thesis by simp
  next
    case 4
    have "base4_letter 3 = base4_symbol 3" by code_simp
    with 4 show ?thesis by simp
  qed
qed

lemma base4_fill_4:
  "base4_fill 4 w = [base4_symbol (w div 64 mod 4), base4_symbol (w div 16 mod 4),
                     base4_symbol (w div 4 mod 4), base4_symbol (w mod 4)]"
proof -
  have d: "w div 4 div 4 = w div 16" "w div 16 div 4 = w div 64"
    by (simp_all add: div_mult2_eq [symmetric])
  have "base4_fill 4 w = base4_fill (Suc (Suc (Suc (Suc 0)))) w"
    by (rule arg_cong [where f = "\<lambda>n. base4_fill n w"]) simp
  also have "\<dots> = [base4_letter (w div 4 div 4 div 4 mod 4), base4_letter (w div 4 div 4 mod 4),
             base4_letter (w div 4 mod 4), base4_letter (w mod 4)]"
    by (simp only: base4_fill.simps append.simps)
  also have "\<dots> = [base4_letter (w div 64 mod 4), base4_letter (w div 16 mod 4),
             base4_letter (w div 4 mod 4), base4_letter (w mod 4)]"
    by (simp only: d)
  also have "\<dots> = [base4_symbol (w div 64 mod 4), base4_symbol (w div 16 mod 4),
                     base4_symbol (w div 4 mod 4), base4_symbol (w mod 4)]"
    by (simp add: base4_letter_symbol)
  finally show ?thesis .
qed

lemma mod_mult_div:
  fixes w :: nat
  assumes "0 < a"
  shows "w mod (a * b) div a = w div a mod b"
proof -
  have "w mod (a * b) = a * (w div a mod b) + w mod a" by (rule mod_mult2_eq)
  moreover have "(a * (w div a mod b) + w mod a) div a = w div a mod b"
    using assms by simp
  ultimately show ?thesis by simp
qed

lemma nat_mod_256_digits:
  fixes w :: nat
  shows "w mod 256 div 64 = w div 64 mod 4" and "w mod 256 div 16 mod 4 = w div 16 mod 4"
    and "w mod 256 div 4 mod 4 = w div 4 mod 4" and "w mod 256 mod 4 = w mod 4"
proof -
  show "w mod 256 div 64 = w div 64 mod 4"
    using mod_mult_div [where w = w and a = 64 and b = 4] by simp
  have "w mod 256 div 16 = w div 16 mod 16"
    using mod_mult_div [where w = w and a = 16 and b = 16] by simp
  moreover have "w div 16 mod 16 mod 4 = w div 16 mod 4"
    by (rule mod_mod_cancel) simp
  ultimately show "w mod 256 div 16 mod 4 = w div 16 mod 4" by simp
  have "w mod 256 div 4 = w div 4 mod 64"
    using mod_mult_div [where w = w and a = 4 and b = 64] by simp
  moreover have "w div 4 mod 64 mod 4 = w div 4 mod 4"
    by (rule mod_mod_cancel) simp
  ultimately show "w mod 256 div 4 mod 4 = w div 4 mod 4" by simp
  show "w mod 256 mod 4 = w mod 4"
    by (rule mod_mod_cancel) simp
qed

lemma nat_mod_2_32_mod_256: "nat (a mod 256) = nat (a mod 2 ^ 32) mod 256"
proof -
  have "(256::int) dvd 2 ^ 32" by simp
  then have "(a mod 2 ^ 32) mod 256 = a mod 256" by (rule mod_mod_cancel)
  moreover have "nat ((a mod 2 ^ 32) mod 256) = nat (a mod 2 ^ 32) mod nat 256"
    by (rule nat_mod_distrib) simp_all
  ultimately show ?thesis by simp
qed

lemma number_to_base4_letters_address_letters:
  "number_to_base4_letters a = address_letters a"
  by (simp only: number_to_base4_letters_def address_letters_def to_unsigned_def Let_def
      base4_fill_4 nat_mod_2_32_mod_256 nat_mod_256_digits)

lemma entry_line_address_letters:
  "entry_line n = node_name n @ '' '' @ address_letters (address n)"
  by (simp add: entry_line_def number_to_base4_letters_address_letters)

lemma external_line_address_letters:
  "external_line r = symbol_name r @ '' '' @ address_letters (ref_address r)"
  by (simp add: external_line_def number_to_base4_letters_address_letters)

lemma object_line_address_line: "object_line a (word w) = address_line a w"
  by (simp add: object_line_def address_line_def number_to_base4_letters_address_letters)

lemma instruction_lines_address_letters:
  "instruction_lines ws = map (map_option (\<lambda>w. address_line (word_address w) w)) ws"
  by (induction ws rule: instruction_lines.induct) (simp_all add: object_line_address_line)

lemma data_lines_address_letters:
  "data_lines a ws = map (\<lambda>i. map_option (address_line (a + int i)) (ws ! i)) [0..<length ws]"
proof (induction ws arbitrary: a)
  case Nil
  show ?case by simp
next
  case (Cons slot rest)
  have shift: "map (\<lambda>i. map_option (address_line (a + int i)) ((slot # rest) ! i)) [0..<length (slot # rest)]
        = map_option (address_line a) slot
          # map (\<lambda>i. map_option (address_line (a + 1 + int i)) (rest ! i)) [0..<length rest]"
    by (simp add: map_upt_Suc del: upt_Suc add: add.assoc)
  have "data_lines a (slot # rest) = map_option (address_line a) slot # data_lines (a + 1) rest"
    by (cases slot) (simp_all add: object_line_address_line)
  also have "\<dots> = map_option (address_line a) slot
          # map (\<lambda>i. map_option (address_line (a + 1 + int i)) (rest ! i)) [0..<length rest]"
    by (simp only: Cons.IH)
  finally show ?case by (simp only: shift)
qed

lemma address_letters_decode:
  "length (address_letters a) = 4 \<and> set (address_letters a) \<subseteq> set ''abcd''
   \<and> int (base4_decode (address_letters a)) = a mod 256"
proof -
  have e: "(4::nat) ^ 4 = 256" by simp
  have "base4_decode (address_letters a) = nat (a mod 2 ^ 32) mod 256"
    unfolding number_to_base4_letters_address_letters [symmetric]
      number_to_base4_letters_def Let_def to_unsigned_def base4_decode_fill e ..
  then have "base4_decode (address_letters a) = nat (a mod 256)"
    by (simp only: nat_mod_2_32_mod_256)
  then have "int (base4_decode (address_letters a)) = a mod 256" by simp
  moreover have "length (address_letters a) = 4" by (simp add: address_letters_def Let_def)
  moreover have "set (address_letters a) \<subseteq> set ''abcd''"
    unfolding number_to_base4_letters_address_letters [symmetric] number_to_base4_letters_def Let_def
    by (rule set_base4_fill)
  ultimately show ?thesis by simp
qed

lemma length_store_words:
  "store_words ws ins i cnt = (ins', i') \<Longrightarrow> length ins' = length ins"
  by (induction ws arbitrary: ins i) (auto split: if_splits)

lemma length_instruction_pass:
  "instruction_pass lines table cnt (ins, idx, ic, ext_list, e) = (ins', idx', ic', ext_list', e')
   \<Longrightarrow> length ins' = length ins"
proof (induction lines arbitrary: ins idx ic ext_list e)
  case Nil
  then show ?case by simp
next
  case (Cons line rest)
  then show ?case
    by (auto split: if_splits option.splits prod.splits dest!: length_store_words) 
qed

lemma length_store_data:
  "store_data vs d i = Some (d', i') \<Longrightarrow> length d' = length d"
  by (induction vs arbitrary: d i) (auto split: if_splits)

lemma length_process_data_line:
  "process_data_line parts d i = Some (ok, d', i') \<Longrightarrow> length d' = length d"
  by (auto simp: process_data_line_def Let_def split: if_splits option.splits
      dest: length_store_data)

lemma length_data_pass:
  "data_pass lines (d, i, e) = Some (d', i', e') \<Longrightarrow> length d' = length d"
proof (induction lines arbitrary: d i e)
  case Nil
  then show ?case by simp
next
  case (Cons line rest)
  then show ?case
    by (auto split: if_splits option.splits prod.splits dest!: length_process_data_line) 
qed

text \<open>
  Claim C10.  Every address that the program writes to the object, entries and externals
  files is written as the four base-4 letters of the address modulo 256, and an address of
  256 or more is no error.  When the first pass has succeeded, the return value of
  \<open>process_file\<close> is that of the two loops of the second pass (\<open>e\<close> is the variable
  \<open>has_errors\<close> after them), whatever the addresses are: writing the files adds no error.
  When the loops end without an error, \<open>process_file\<close> returns \<open>SUCCESS\<close> and

  \<^item> every line of the object file after the header is \<open>address_line a w\<close>, where \<open>a\<close> is
    the address stored with an instruction word, or \<open>IC_final + i\<close> for data word \<open>i\<close>
    (\<open>None\<close> stands for a line printed from a slot that was never written);
  \<^item> every line of the entries file is the name, a space and \<open>address_letters\<close> of the
    symbol's address;
  \<^item> every line of the externals file is the name, a space and \<open>address_letters\<close> of the
    address of the reference.

  \<open>address_letters a\<close> has four letters among \<open>a\<close>, \<open>b\<close>, \<open>c\<close>, \<open>d\<close> and, read as a
  base-4 numeral over \<open>a = 0\<close>, \<open>b = 1\<close>, \<open>c = 2\<close>, \<open>d = 3\<close> with the most significant
  digit first, is \<open>a mod 256\<close>: \<open>number_to_base4_letters\<close> keeps the four least significant
  base-4 digits and has no error result.
\<close>

theorem addresses_wrap_in_output_files:
  assumes am: "am = snd (expand_macros source)"
    and fp: "first_pass_on_table am [] = (True, table, IC, DC)"
    and img: "create_memory_image IC DC = Some img"
    and ip: "instruction_pass (read_lines am) table (instruction_count img)
               (instructions img, 0, INITIAL_IC, [], False) = (ins, idx, cur, ext_list, e1)"
    and dp: "data_pass (read_lines am) (data img, 0, e1) = Some (dat, didx, e)"
  shows "process_file source =
           Some (if e then (False, am, no_outputs)
                 else (True, am,
             \<lparr>ob = Some (Some (strip_leading_a (number_to_base4_letters (IC - INITIAL_IC)) @ '' ''
                               @ strip_leading_a (number_to_base4_letters DC))
                         # map (map_option (\<lambda>w. address_line (word_address w) w)) ins
                         @ map (\<lambda>i. map_option (address_line (IC + int i)) (dat ! i))
                             [0..<length dat]),
              ent = (if list_ex (\<lambda>n. node_type n = LABEL_ENTRY \<and> is_defined n) table
                     then Some (map (\<lambda>n. node_name n @ '' '' @ address_letters (address n))
                                  (filter is_entry table))
                     else None),
              ext = (if ext_list = [] then None
                     else Some (map (\<lambda>r. symbol_name r @ '' '' @ address_letters (ref_address r))
                                  ext_list))\<rparr>))
         \<and> (\<forall>a. length (address_letters a) = 4
                \<and> set (address_letters a) \<subseteq> set ''abcd''
                \<and> int (base4_decode (address_letters a)) = a mod 256)"
proof -
  from img have IC: "INITIAL_IC \<le> IC" and DC: "0 \<le> DC"
    and i: "img = \<lparr>instructions = replicate (nat (IC - INITIAL_IC)) None,
                   data = replicate (nat DC) None,
                   instruction_count = IC - INITIAL_IC, data_count = DC,
                   ic_final = IC, dc_final = DC\<rparr>"
    by (auto simp: create_memory_image_def split: if_splits)
  from length_instruction_pass [OF ip] i have li: "length ins = nat (IC - INITIAL_IC)" by simp
  from length_data_pass [OF dp] i have ld: "length dat = nat DC" by simp
  have sp: "second_pass am table IC DC =
          Some (if e then (False, no_outputs)
                else (True, \<lparr>ob = Some (generate_object_file (img\<lparr>instructions := ins, data := dat\<rparr>)),
                             ent = generate_entries_file table,
                             ext = generate_externals_file ext_list\<rparr>))"
    by (simp add: second_pass_def img ip dp)
  have ob: "generate_object_file (img\<lparr>instructions := ins, data := dat\<rparr>)
          = Some (strip_leading_a (number_to_base4_letters (IC - INITIAL_IC)) @ '' ''
                  @ strip_leading_a (number_to_base4_letters DC))
            # map (map_option (\<lambda>w. address_line (word_address w) w)) ins
            @ map (\<lambda>i. map_option (address_line (IC + int i)) (dat ! i)) [0..<length dat]"
    using IC by (simp add: generate_object_file_def i li ld instruction_lines_address_letters
        data_lines_address_letters)
  have en: "generate_entries_file table
          = (if list_ex (\<lambda>n. node_type n = LABEL_ENTRY \<and> is_defined n) table
             then Some (map (\<lambda>n. node_name n @ '' '' @ address_letters (address n))
                          (filter is_entry table))
             else None)"
    by (simp add: generate_entries_file_def list_ex_iff entry_line_address_letters)
  have ex: "generate_externals_file ext_list
          = (if ext_list = [] then None
             else Some (map (\<lambda>r. symbol_name r @ '' '' @ address_letters (ref_address r))
                          ext_list))"
    by (simp add: generate_externals_file_def external_line_address_letters)
  have "process_file source =
          Some (if e then (False, am, no_outputs)
                else (True, am,
                      \<lparr>ob = Some (generate_object_file (img\<lparr>instructions := ins, data := dat\<rparr>)),
                       ent = generate_entries_file table,
                       ext = generate_externals_file ext_list\<rparr>))"
    using fp sp by (simp add: process_file_def am [symmetric])
  then have "process_file source =
           Some (if e then (False, am, no_outputs)
                 else (True, am,
             \<lparr>ob = Some (Some (strip_leading_a (number_to_base4_letters (IC - INITIAL_IC)) @ '' ''
                               @ strip_leading_a (number_to_base4_letters DC))
                         # map (map_option (\<lambda>w. address_line (word_address w) w)) ins
                         @ map (\<lambda>i. map_option (address_line (IC + int i)) (dat ! i))
                             [0..<length dat]),
              ent = (if list_ex (\<lambda>n. node_type n = LABEL_ENTRY \<and> is_defined n) table
                     then Some (map (\<lambda>n. node_name n @ '' '' @ address_letters (address n))
                                  (filter is_entry table))
                     else None),
              ext = (if ext_list = [] then None
                     else Some (map (\<lambda>r. symbol_name r @ '' '' @ address_letters (ref_address r))
                                  ext_list))\<rparr>))"
    by (simp only: ob en ex)
  moreover have "\<forall>a. length (address_letters a) = 4
                \<and> set (address_letters a) \<subseteq> set ''abcd''
                \<and> int (base4_decode (address_letters a)) = a mod 256"
    using address_letters_decode by blast
  ultimately show ?thesis by (rule conjI)
qed

text \<open>
  A program whose addresses pass 255: 32 instructions of five words, then the entry symbol
  \<open>E\<close> at 260 with a reference to the external symbol \<open>X\<close> at 261, and the four data
  words of \<open>M\<close> at 263 to 266.  The assembly succeeds; the files give 260 as \<open>aaba\<close> (4),
  261 as \<open>aabb\<close> (5) and 263 to 266 as \<open>aabd\<close> to \<open>aacc\<close> (7 to 10).
\<close>

theorem addresses_wrap_in_output_files_witness:
  "first_pass_on_table
     (text_file ([''.entry E'', ''.extern X'', ''M: .mat [2][2]'']
                 @ replicate 32 ''mov M[r1][r2], M[r1][r2]'' @ [''E: jmp X'', ''stop''])) []
     = (True,
        [\<lparr>node_name = ''M'', address = 263, node_type = LABEL_DATA, is_defined = True\<rparr>,
         \<lparr>node_name = ''X'', address = 0, node_type = LABEL_EXTERNAL, is_defined = False\<rparr>,
         \<lparr>node_name = ''E'', address = 260, node_type = LABEL_ENTRY, is_defined = True\<rparr>],
        263, 4)
   \<and> (\<exists>files lines.
          process_file
            (text_file ([''.entry E'', ''.extern X'', ''M: .mat [2][2]'']
                        @ replicate 32 ''mov M[r1][r2], M[r1][r2]'' @ [''E: jmp X'', ''stop'']))
            = Some (True,
                    text_file ([''.entry E'', ''.extern X'', ''M: .mat [2][2]'']
                               @ replicate 32 ''mov M[r1][r2], M[r1][r2]'' @ [''E: jmp X'', ''stop'']),
                    files)
        \<and> ent files = Some [''E aaba'']
        \<and> ext files = Some [''X aabb'']
        \<and> ob files = Some lines
        \<and> length lines = 168
        \<and> drop 164 lines = [Some ''aabd aaaaa'', Some ''aaca aaaaa'',
                             Some ''aacb aaaaa'', Some ''aacc aaaaa''])"
proof -
  let ?S = "text_file ([''.entry E'', ''.extern X'', ''M: .mat [2][2]'']
                       @ replicate 32 ''mov M[r1][r2], M[r1][r2]'' @ [''E: jmp X'', ''stop''])"
  let ?T = "[\<lparr>node_name = ''M'', address = 263, node_type = LABEL_DATA, is_defined = True\<rparr>,
             \<lparr>node_name = ''X'', address = 0, node_type = LABEL_EXTERNAL, is_defined = False\<rparr>,
             \<lparr>node_name = ''E'', address = 260, node_type = LABEL_ENTRY, is_defined = True\<rparr>]"
  let ?I = "\<lparr>instructions = replicate 163 None, data = replicate 4 None,
             instruction_count = 163, data_count = 4, ic_final = 263, dc_final = 4\<rparr>"
  let ?D = "[Some \<lparr>word = 0, are = ARE_ABSOLUTE, word_address = 0\<rparr>,
             Some \<lparr>word = 0, are = ARE_ABSOLUTE, word_address = 1\<rparr>,
             Some \<lparr>word = 0, are = ARE_ABSOLUTE, word_address = 2\<rparr>,
             Some \<lparr>word = 0, are = ARE_ABSOLUTE, word_address = 3\<rparr>]"
  let ?E = "[\<lparr>symbol_name = ''X'', ref_address = 261\<rparr>]"
  let ?P = "instruction_pass (read_lines ?S) ?T (instruction_count ?I)
              (instructions ?I, 0, INITIAL_IC, [], False)"
  have am: "?S = snd (expand_macros ?S)" by code_simp
  have fp: "first_pass_on_table ?S [] = (True, ?T, 263, 4)" by code_simp
  have img: "create_memory_image 263 4 = Some ?I" by code_simp
  have p: "(case ?P of (ins, idx, cur, el, e) \<Rightarrow> (el, e)) = (?E, False)" by code_simp
  obtain ins idx cur el e where ip0: "?P = (ins, idx, cur, el, e)" by (rule prod_cases5)
  from p have "el = ?E" and "e = False" unfolding ip0 by simp_all
  with ip0 have ip: "?P = (ins, idx, cur, ?E, False)" by simp
  have dp: "data_pass (read_lines ?S) (data ?I, 0, False) = Some (?D, 4, False)" by code_simp
  have li: "length ins = 163" using length_instruction_pass [OF ip] by simp
  have en: "(if list_ex (\<lambda>n. node_type n = LABEL_ENTRY \<and> is_defined n) ?T
             then Some (map (\<lambda>n. node_name n @ '' '' @ address_letters (address n))
                          (filter is_entry ?T))
             else None) = Some [''E aaba'']" by code_simp
  have ex: "(if ?E = [] then None
             else Some (map (\<lambda>r. symbol_name r @ '' '' @ address_letters (ref_address r)) ?E))
            = Some [''X aabb'']" by code_simp
  have da: "map (\<lambda>i. map_option (address_line (263 + int i)) (?D ! i)) [0..<length ?D]
            = [Some ''aabd aaaaa'', Some ''aaca aaaaa'', Some ''aacb aaaaa'', Some ''aacc aaaaa'']"
    by code_simp
  let ?L = "Some (strip_leading_a (number_to_base4_letters (263 - INITIAL_IC)) @ '' ''
                  @ strip_leading_a (number_to_base4_letters 4))
            # map (map_option (\<lambda>w. address_line (word_address w) w)) ins
            @ map (\<lambda>i. map_option (address_line (263 + int i)) (?D ! i)) [0..<length ?D]"
  have pf: "process_file ?S = Some (True, ?S, \<lparr>ob = Some ?L, ent = Some [''E aaba''],
                                               ext = Some [''X aabb'']\<rparr>)"
    using conjunct1 [OF addresses_wrap_in_output_files [OF am fp img ip dp]]
    by (simp only: en ex if_False)
  have ll: "length ?L = 168" using li by simp
  have dl: "drop 164 ?L = [Some ''aabd aaaaa'', Some ''aaca aaaaa'',
                           Some ''aacb aaaaa'', Some ''aacc aaaaa'']"
    unfolding da using li by simp
  have "\<exists>files lines. process_file ?S = Some (True, ?S, files)
        \<and> ent files = Some [''E aaba'']
        \<and> ext files = Some [''X aabb'']
        \<and> ob files = Some lines
        \<and> length lines = 168
        \<and> drop 164 lines = [Some ''aabd aaaaa'', Some ''aaca aaaaa'',
                             Some ''aacb aaaaa'', Some ''aacc aaaaa'']"
    using pf ll dl by (intro exI [of _ "\<lparr>ob = Some ?L, ent = Some [''E aaba''], ext = Some [''X aabb'']\<rparr>"] exI [of _ ?L]) simp
  with fp show ?thesis by (rule conjI)
qed

section \<open>The first pass: addresses of the data symbols\<close>

text \<open>
  Claim C5.  After a first pass without errors every data symbol has been shifted by
  \<open>IC_final\<close> and lies in the range from \<open>100 + instruction words\<close> (included) to
  \<open>100 + instruction words + data words\<close> (excluded).  The program does not do this for
  a symbol that \<open>.entry\<close> names before a data directive defines it.  In the first source
  below \<open>X\<close> is defined by \<open>.data\<close> at the data offset 3; \<open>define_label\<close> keeps its
  type \<open>LABEL_ENTRY\<close>, and the loop at the end of \<open>first_pass_on_table\<close>, which shifts
  the symbols of type \<open>LABEL_DATA\<close> only, leaves it at 3 while \<open>Y\<close> moves to 104.  The
  first pass succeeds with \<open>IC_final = 104\<close> and four data words, so the word of \<open>X\<close>
  is the line \<open>bccd aaabb\<close> (address 107) of the object file; the operand word of
  \<open>mov X, r1\<close> (\<open>aaadc\<close>) and the entries file (\<open>X aaad\<close>) give the address 3.

  Nor does the upper bound hold when \<open>.data\<close> has no operand: \<open>.string\<close> and \<open>.mat\<close>
  reject an empty operand list, \<open>.data\<close> accepts it and defines \<open>X\<close> at 100 where the
  range from 100 to 100 is empty.
\<close>

theorem data_symbol_after_entry_not_rebased:
  "first_pass_on_table
     (text_file [''.entry X'', ''Y: .data 1, 2, 3'', ''X: .data 5'', ''mov X, r1'', ''stop'']) []
     = (True,
        [\<lparr>node_name = ''Y'', address = 104, node_type = LABEL_DATA, is_defined = True\<rparr>,
         \<lparr>node_name = ''X'', address = 3, node_type = LABEL_ENTRY, is_defined = True\<rparr>],
        104, 4)
   \<and> process_file
       (text_file [''.entry X'', ''Y: .data 1, 2, 3'', ''X: .data 5'', ''mov X, r1'', ''stop''])
     = Some (True,
             text_file [''.entry X'', ''Y: .data 1, 2, 3'', ''X: .data 5'', ''mov X, r1'', ''stop''],
             \<lparr>ob = Some [Some ''ba ba'', Some ''bcba aabda'', Some ''bcbb aaadc'',
                         Some ''bcbc aaaba'', Some ''bcbd ddaaa'', Some ''bcca aaaab'',
                         Some ''bccb aaaac'', Some ''bccc aaaad'', Some ''bccd aaabb''],
              ent = Some [''X aaad''],
              ext = None\<rparr>)
   \<and> first_pass_on_table (text_file [''X: .data'']) []
     = (True, [\<lparr>node_name = ''X'', address = 100, node_type = LABEL_DATA, is_defined = True\<rparr>],
        100, 0)
   \<and> first_pass_on_table (text_file [''X: .string'']) [] = (False, [], 100, 0)
   \<and> first_pass_on_table (text_file [''X: .mat'']) [] = (False, [], 100, 0)"
  by code_simp

section \<open>The externals file\<close>

subsection \<open>One operand, one instruction\<close>

lemma is_valid_label_length: "is_valid_label l \<Longrightarrow> length l \<le> 30"
  by (auto simp: is_valid_label_def split: if_splits)

lemma find_label_SomeD: "find_label t n = Some l \<Longrightarrow> l \<in> set t \<and> node_name l = n"
  by (auto simp: find_label_def find_Some_iff)

lemma names_valid_find: "names_valid t \<Longrightarrow> find_label t n = Some l \<Longrightarrow> length n \<le> 30"
  by (auto simp: names_valid_def list_all_iff dest!: find_label_SomeD intro: is_valid_label_length)

lemma convert_MATRIX: "convert_to_addressing_mode m = MODE_MATRIX \<longleftrightarrow> m = MATRIX_ACCESS"
  by (simp add: convert_to_addressing_mode_def)

lemma convert_REGISTER: "convert_to_addressing_mode m = MODE_REGISTER \<longleftrightarrow> m = REGISTER"
  by (simp add: convert_to_addressing_mode_def)

lemma get_operand_mode_MATRIX:
  "get_operand_mode operand = MATRIX_ACCESS \<Longrightarrow> \<exists>s. operand = Some s \<and> parse_matrix_access s"
  by (auto simp: get_operand_mode_def Let_def split: option.splits if_splits)

lemma take_before_dropWhile: "take (length s - length (dropWhile P s)) s = takeWhile P s"
proof -
  have "length s - length (dropWhile P s) = length (takeWhile P s)"
    by (metis add_diff_cancel_right' length_append takeWhile_dropWhile_id)
  then show ?thesis by (metis takeWhile_eq_take)
qed

lemma parse_matrix_access_label:
  "parse_matrix_access s \<Longrightarrow> length (takeWhile (\<lambda>c. c \<noteq> OPEN_BRACKET) s) \<le> 30"
  by (auto simp: parse_matrix_access_def strchr_def Let_def take_before_dropWhile
      split: option.splits if_splits dest: is_valid_label_length)

lemma encode_operand_uses:
  assumes "encode_operand operand table mode addr ext_list = (Some w, ext_list')"
    and "names_valid table"
  shows "ext_list' = rev (operand_use table operand mode addr) @ ext_list"
proof (cases operand)
  case None
  with assms(1) show ?thesis by (simp add: encode_operand_def)
next
  case (Some s)
  show ?thesis
  proof (cases mode)
    case MODE_DIRECT
    show ?thesis
    proof (cases "find_label table s")
      case None
      with assms(1) Some MODE_DIRECT show ?thesis by (simp add: encode_operand_def)
    next
      case (Some l)
      from names_valid_find [OF assms(2) Some] have "take MAX_LABEL_LENGTH s = s" by simp
      with assms(1) Some \<open>operand = Some s\<close> MODE_DIRECT show ?thesis
        by (auto simp: encode_operand_def operand_use_def operand_symbol_def
            add_external_reference_def split: if_splits)
    qed
  next
    case MODE_IMMEDIATE
    with assms(1) Some show ?thesis
      by (auto simp: encode_operand_def operand_use_def operand_symbol_def Let_def)
  next
    case MODE_REGISTER
    with assms(1) Some show ?thesis
      by (auto simp: encode_operand_def operand_use_def operand_symbol_def Let_def split: if_splits)
  next
    case MODE_MATRIX
    with assms(1) Some show ?thesis by (simp add: encode_operand_def)
  qed
qed

lemma encode_matrix_operand_uses:
  assumes "encode_matrix_operand (Some s) table addr ext_list = (Some ws, ext_list')"
    and "parse_matrix_access s"
  shows "ext_list' = rev (operand_use table (Some s) MODE_MATRIX addr) @ ext_list \<and> length ws = 2"
proof -
  let ?sname = "takeWhile (\<lambda>c. c \<noteq> OPEN_BRACKET) s"
  from parse_matrix_access_label [OF assms(2)] have "take MAX_LABEL_LENGTH ?sname = ?sname" by simp
  then have lbl: "take MAX_LABEL_LENGTH
                    (take (length s - length (dropWhile (\<lambda>x. x \<noteq> OPEN_BRACKET) s)) s) = ?sname"
    by (simp only: take_before_dropWhile)
  have use: "operand_use table (Some s) MODE_MATRIX addr =
               (case find_label table ?sname of
                  None \<Rightarrow> []
                | Some l \<Rightarrow> if node_type l = LABEL_EXTERNAL
                            then [\<lparr>symbol_name = ?sname, ref_address = addr\<rparr>] else [])"
    by (simp add: operand_use_def operand_symbol_def)
  from assms(1) show ?thesis
    by (auto simp del: take_take
        simp add: encode_matrix_operand_def strchr_def Let_def lbl use add_external_reference_def
        split: option.splits if_splits)
qed

lemma encode_one_uses:
  assumes "encode_one operand table mode addr ext_list = (Some ws, ext_list')"
    and "names_valid table"
    and "mode = MODE_MATRIX \<Longrightarrow> \<exists>s. operand = Some s \<and> parse_matrix_access s"
  shows "ext_list' = rev (operand_use table operand mode addr) @ ext_list
         \<and> int (length ws) = operand_words mode"
proof (cases "mode = MODE_MATRIX")
  case True
  with assms(3) obtain s where s: "operand = Some s" "parse_matrix_access s" by blast
  from assms(1) True s have "encode_matrix_operand (Some s) table addr ext_list = (Some ws, ext_list')"
    by (simp add: encode_one_def)
  from encode_matrix_operand_uses [OF this s(2)] True s show ?thesis
    by (simp add: operand_words_def)
next
  case False
  with assms(1) obtain w where w: "encode_operand operand table mode addr ext_list = (Some w, ext_list')"
    and ws: "ws = [w]"
    by (auto simp: encode_one_def split: prod.splits option.splits)
  from encode_operand_uses [OF w assms(2)] ws False show ?thesis
    by (simp add: operand_words_def)
qed

lemma operand_mode_MATRIX:
  "operand_mode parts i = MODE_MATRIX \<Longrightarrow> \<exists>s. operand_at parts i = Some s \<and> parse_matrix_access s"
  by (simp add: operand_mode_def convert_MATRIX get_operand_mode_MATRIX)

lemma encode_instruction_uses:
  assumes enc: "encode_instruction parts table ic ext_list = (Some ws, ext_list')"
    and nv: "names_valid table"
  shows "ext_list' = rev (instruction_uses table parts ic) @ ext_list
         \<and> int (length ws) = estimate_ic_words parts"
proof -
  from enc obtain cmd inst where c: "command parts = Some cmd"
    and g: "get_instruction (Some cmd) = Some inst"
    by (auto simp: encode_instruction_def split: option.splits)
  let ?n = "num_of_operands inst"
  let ?m0 = "get_operand_mode (operand_at parts 0)"
  let ?m1 = "get_operand_mode (operand_at parts 1)"
  consider (one) "?n = 1" | (two) "?n = 2" | (other) "?n \<noteq> 1" "?n \<noteq> 2" by blast
  then show ?thesis
  proof cases
    case one
    with enc c g have ok: "?m0 \<noteq> FAILURE"
      by (auto simp: encode_instruction_def Let_def split: if_splits)
    with enc c g one obtain ws1 where
      e1: "encode_one (operand_at parts 0) table (operand_mode parts 0) (ic + 1) ext_list
             = (Some ws1, ext_list')"
      and ws: "length ws = Suc (length ws1)"
      by (auto simp: encode_instruction_def Let_def operand_mode_def split: prod.splits option.splits)
    from encode_one_uses [OF e1 nv operand_mode_MATRIX]
    have u: "ext_list' = rev (operand_use table (operand_at parts 0) (operand_mode parts 0) (ic + 1)) @ ext_list"
      and l: "int (length ws1) = operand_words (operand_mode parts 0)" by simp_all
    from u c g one have "ext_list' = rev (instruction_uses table parts ic) @ ext_list"
      by (simp add: instruction_uses_def)
    moreover from l ws c g one ok have "int (length ws) = estimate_ic_words parts"
      by (simp add: estimate_ic_words_def Let_def operand_words_def operand_mode_def convert_MATRIX)
    ultimately show ?thesis by simp
  next
    case two
    with enc c g have ok: "?m0 \<noteq> FAILURE" "?m1 \<noteq> FAILURE"
      by (auto simp: encode_instruction_def Let_def split: if_splits)
    show ?thesis
    proof (cases "operand_mode parts 0 = MODE_REGISTER \<and> operand_mode parts 1 = MODE_REGISTER")
      case True
      with enc c g two ok have "ext_list' = ext_list" "length ws = 2"
        by (auto simp: encode_instruction_def Let_def operand_mode_def split: if_splits)
      moreover from True have "?m0 = REGISTER" "?m1 = REGISTER"
        by (simp_all add: operand_mode_def convert_REGISTER)
      ultimately show ?thesis using c g two True
        by (simp add: instruction_uses_def estimate_ic_words_def)
    next
      case False
      with enc c g two ok obtain ws1 ws2 e1 where
        e1: "encode_one (operand_at parts 0) table (operand_mode parts 0) (ic + 1) ext_list
               = (Some ws1, e1)"
        and e2: "encode_one (operand_at parts 1) table (operand_mode parts 1)
                   (ic + 1 + int (length ws1)) e1 = (Some ws2, ext_list')"
        and ws: "length ws = Suc (length ws1 + length ws2)"
        by (auto simp: encode_instruction_def Let_def operand_mode_def
            split: prod.splits option.splits if_splits)
      from encode_one_uses [OF e1 nv operand_mode_MATRIX]
      have u1: "e1 = rev (operand_use table (operand_at parts 0) (operand_mode parts 0) (ic + 1)) @ ext_list"
        and l1: "int (length ws1) = operand_words (operand_mode parts 0)" by simp_all
      from encode_one_uses [OF e2 nv operand_mode_MATRIX]
      have u2: "ext_list' = rev (operand_use table (operand_at parts 1) (operand_mode parts 1)
                                   (ic + 1 + int (length ws1))) @ e1"
        and l2: "int (length ws2) = operand_words (operand_mode parts 1)" by simp_all
      from u1 u2 l1 c g two False
      have "ext_list' = rev (instruction_uses table parts ic) @ ext_list"
        by (auto simp add: instruction_uses_def)
      moreover from False have "\<not> (?m0 = REGISTER \<and> ?m1 = REGISTER)"
        by (simp add: operand_mode_def convert_REGISTER)
      with l1 l2 ws c g two ok have "int (length ws) = estimate_ic_words parts"
        by (simp add: estimate_ic_words_def Let_def operand_words_def operand_mode_def convert_MATRIX)
      ultimately show ?thesis by simp
    qed
  next
    case other
    with enc c g have "ext_list' = ext_list" "length ws = 1"
      by (auto simp: encode_instruction_def Let_def split: if_splits)
    moreover from other c g have "estimate_ic_words parts = 1"
      by (simp add: estimate_ic_words_def Let_def)
    ultimately show ?thesis using c g other
      by (simp add: instruction_uses_def)
  qed
qed

subsection \<open>The symbol table of a successful first pass has valid names\<close>

lemma first_pass_loop_error_stays:
  "first_pass_loop lines (t, IC, DC, True) = (t', IC', DC', e) \<Longrightarrow> e"
  by (induction lines arbitrary: t IC DC) (auto split: if_splits prod.splits)

lemma process_line_cases:
  assumes "process_line line t IC DC = (True, t', IC', DC')"
  shows "(t' = t \<and> IC' = IC \<and> DC' = DC)
       \<or> (\<exists>parts. parse_line (line_start line) = Some parts \<and>
            ((command parts = Some ''.data'' \<and> data_directive parts t IC DC = (True, t', IC', DC'))
           \<or> string_directive parts t IC DC = (True, t', IC', DC')
           \<or> mat_directive parts t IC DC = (True, t', IC', DC')
           \<or> (\<exists>ok. extern_loop (operands parts) t = (ok, t') \<and> IC' = IC \<and> DC' = DC)
           \<or> (t' = entry_loop (operands parts) t \<and> IC' = IC \<and> DC' = DC)
           \<or> instruction_line parts t IC DC = (True, t', IC', DC')))"
  using assms
  by (auto simp: process_line_def Let_def split: if_splits option.splits prod.splits)

lemma names_valid_update_label:
  "names_valid t \<Longrightarrow> (\<And>y. node_name (f y) = node_name y) \<Longrightarrow> names_valid (update_label n f t)"
  by (induction t) (auto simp: names_valid_def)

lemma names_valid_add_label: "names_valid t \<Longrightarrow> add_label t n a ty = Some t' \<Longrightarrow> names_valid t'"
  by (auto simp: add_label_def names_valid_def split: if_splits)

lemma names_valid_define_label:
  assumes "names_valid t" and "define_label t n a ty = (ok, t')"
  shows "names_valid t'"
proof -
  let ?f = "\<lambda>node. node\<lparr>address := a,
                     node_type := (if node_type node \<noteq> LABEL_ENTRY then ty else node_type node),
                     is_defined := True\<rparr>"
  have u: "names_valid (update_label n ?f t)"
    by (rule names_valid_update_label [OF assms(1)]) simp
  have m: "names_valid t1 \<Longrightarrow> mark_label_defined t1 n = Some t2 \<Longrightarrow> names_valid t2" for t1 t2
    by (auto simp: mark_label_defined_def split: option.splits if_splits
        intro: names_valid_update_label)
  from assms u show ?thesis
    by (auto simp: define_label_def split: option.splits if_splits
        dest: names_valid_add_label m)
qed

lemma names_valid_define_if_labelled:
  "names_valid t \<Longrightarrow> define_if_labelled parts t a ty = (ok, t') \<Longrightarrow> names_valid t'"
  by (auto simp: define_if_labelled_def split: option.splits dest: names_valid_define_label)

lemma names_valid_extern_loop:
  "names_valid t \<Longrightarrow> extern_loop ops t = (ok, t') \<Longrightarrow> names_valid t'"
proof (induction ops arbitrary: t)
  case Nil
  then show ?case by simp
next
  case (Cons operand rest)
  have "names_valid (case add_label t operand 0 LABEL_EXTERNAL of Some t' \<Rightarrow> t' | None \<Rightarrow> t)"
    using Cons.prems(1) by (auto split: option.splits dest: names_valid_add_label)
  with Cons show ?case by (auto split: option.splits if_splits)
qed

lemma names_valid_entry_loop: "names_valid t \<Longrightarrow> names_valid (entry_loop ops t)"
proof (induction ops arbitrary: t)
  case Nil
  then show ?case by simp
next
  case (Cons operand rest)
  have u: "names_valid (update_label operand (\<lambda>node. node\<lparr>node_type := LABEL_ENTRY\<rparr>) t)"
    by (rule names_valid_update_label [OF Cons.prems]) simp
  have a: "names_valid (case add_label t operand 0 LABEL_ENTRY of Some t' \<Rightarrow> t' | None \<Rightarrow> t)"
    using Cons.prems by (auto split: option.splits dest: names_valid_add_label)
  show ?case
    using u a Cons.prems by (auto intro!: Cons.IH split: option.splits)
qed

lemma names_valid_process_line:
  assumes nv: "names_valid t" and pl: "process_line line t IC DC = (True, t', IC', DC')"
  shows "names_valid t'"
proof -
  from process_line_cases [OF pl] show ?thesis
  proof (elim disjE exE conjE)
    assume "t' = t"
    with nv show ?thesis by simp
  next
    fix parts assume "data_directive parts t IC DC = (True, t', IC', DC')"
    with nv show ?thesis
      by (auto simp: data_directive_def split: if_splits prod.splits
          dest: names_valid_define_if_labelled)
  next
    fix parts assume "string_directive parts t IC DC = (True, t', IC', DC')"
    with nv show ?thesis
      by (auto simp: string_directive_def Let_def split: if_splits prod.splits
          dest: names_valid_define_if_labelled)
  next
    fix parts assume "mat_directive parts t IC DC = (True, t', IC', DC')"
    with nv show ?thesis
      by (auto simp: mat_directive_def Let_def split: if_splits prod.splits option.splits
          dest: names_valid_define_if_labelled)
  next
    fix parts :: separate_line and ok assume "extern_loop (operands parts) t = (ok, t')"
    with nv show ?thesis by (rule names_valid_extern_loop)
  next
    fix parts :: separate_line assume "t' = entry_loop (operands parts) t"
    with nv show ?thesis by (simp add: names_valid_entry_loop)
  next
    fix parts assume "instruction_line parts t IC DC = (True, t', IC', DC')"
    with nv show ?thesis
      by (auto simp: instruction_line_def Let_def split: if_splits prod.splits
          dest: names_valid_define_if_labelled)
  qed
qed

lemma names_valid_first_pass_loop:
  assumes "first_pass_loop lines (t, IC, DC, False) = (t', IC', DC', False)" and "names_valid t"
  shows "names_valid t'"
  using assms
proof (induction lines arbitrary: t IC DC)
  case Nil
  then show ?case by simp
next
  case (Cons line rest)
  from Cons.prems(1) have nl: "\<not> line_too_long line"
    by (auto dest: first_pass_loop_error_stays)
  obtain ok t1 IC1 DC1 where pl: "process_line line t IC DC = (ok, t1, IC1, DC1)"
    by (cases "process_line line t IC DC") auto
  with Cons.prems(1) nl have r: "first_pass_loop rest (t1, IC1, DC1, \<not> ok) = (t', IC', DC', False)"
    by simp
  then have ok by (cases ok) (auto dest: first_pass_loop_error_stays)
  with pl r have pl': "process_line line t IC DC = (True, t1, IC1, DC1)"
    and r': "first_pass_loop rest (t1, IC1, DC1, False) = (t', IC', DC', False)" by simp_all
  from Cons.IH [OF r' names_valid_process_line [OF Cons.prems(2) pl']] show ?case .
qed

lemma names_valid_first_pass:
  assumes "first_pass_on_table file [] = (True, table, IC, DC)"
  shows "names_valid table"
proof -
  obtain table0 IC0 DC0 e where
    loop: "first_pass_loop (read_lines file) ([], INITIAL_IC, INITIAL_DC, False) = (table0, IC0, DC0, e)"
    by (cases "first_pass_loop (read_lines file) ([], INITIAL_IC, INITIAL_DC, False)") auto
  with assms have e: "\<not> e" and table: "table = map (rebase_data IC) table0"
    by (auto simp: first_pass_on_table_def split: if_splits)
  have "names_valid []" by (simp add: names_valid_def)
  with loop e have "names_valid table0" by (auto dest: names_valid_first_pass_loop)
  then show ?thesis unfolding table
    by (auto simp: names_valid_def list_all_iff rebase_data_def)
qed

subsection \<open>The instruction pass\<close>

lemma instruction_pass_error_stays:
  "instruction_pass lines table cnt (ins, idx, ic, ext_list, True) = (ins', idx', ic', ext_list', e) \<Longrightarrow> e"
  by (induction lines arbitrary: ins idx ic ext_list)
     (auto split: if_splits option.splits prod.splits)

lemma data_pass_error_stays:
  "data_pass lines (d, i, True) = Some (d', i', e) \<Longrightarrow> e"
  by (induction lines arbitrary: d i) (auto split: if_splits option.splits prod.splits)

lemma instruction_pass_uses:
  assumes "instruction_pass lines table cnt (ins, idx, ic, ext_list, False)
             = (ins', idx', ic', ext_list', False)"
    and "names_valid table"
  shows "ext_list' = rev (external_uses table lines ic) @ ext_list"
  using assms
proof (induction lines arbitrary: ins idx ic ext_list)
  case Nil
  then show ?case by simp
next
  case (Cons line rest)
  from Cons.prems(1) have nl: "\<not> line_too_long line"
    by (auto dest: instruction_pass_error_stays)
  show ?case
  proof (cases "skipped_line line")
    case True
    with Cons nl show ?thesis by simp
  next
    case False
    show ?thesis
    proof (cases "parse_line line")
      case None
      with Cons nl False show ?thesis by simp
    next
      case (Some parts)
      show ?thesis
      proof (cases "is_directive_line parts")
        case True
        with Cons nl False Some show ?thesis by simp
      next
        case nd: False
        obtain r e1 where enc: "encode_instruction parts table ic ext_list = (r, e1)"
          by (cases "encode_instruction parts table ic ext_list") auto
        show ?thesis
        proof (cases r)
          case None
          with Cons.prems(1) nl False Some nd enc show ?thesis
            by (auto dest: instruction_pass_error_stays)
        next
          case (Some ws)
          obtain ins1 idx1 where st: "store_words ws ins idx cnt = (ins1, idx1)"
            by (cases "store_words ws ins idx cnt") auto
          from Cons.prems(1) nl False \<open>parse_line line = Some parts\<close> nd enc Some st
          have r': "instruction_pass rest table cnt (ins1, idx1, ic + int (length ws), e1, False)
                      = (ins', idx', ic', ext_list', False)" by simp
          from enc Some have enc': "encode_instruction parts table ic ext_list = (Some ws, e1)" by simp
          from encode_instruction_uses [OF enc' Cons.prems(2)]
          have u: "e1 = rev (instruction_uses table parts ic) @ ext_list"
            and l: "int (length ws) = estimate_ic_words parts" by simp_all
          from Cons.IH [OF r' Cons.prems(2)] u l False \<open>parse_line line = Some parts\<close> nd
          show ?thesis by simp
        qed
      qed
    qed
  qed
qed

text \<open>
  Claim C4, as the program has it.  When \<open>process_file\<close> succeeds, the externals file has
  exactly one line per use site of an external symbol (\<open>external_uses\<close>, one element per
  operand that names an external symbol, not one per symbol), each with the address of the
  operand word, and the file is not written when there is no use site.  The lines are in
  the \<^emph>\<open>reverse\<close> of the order in which the instruction pass met the use sites:
  \<open>add_external_reference\<close> puts each new reference at the head of the list and
  \<open>generate_externals_file\<close> prints the list from its head.
\<close>

theorem externals_file_order:
  assumes pf: "process_file source = Some (True, am, files)"
  shows "\<exists>table IC DC.
           first_pass_on_table am [] = (True, table, IC, DC)
         \<and> ext files =
             (if external_uses table (read_lines am) INITIAL_IC = [] then None
              else Some (map external_line (rev (external_uses table (read_lines am) INITIAL_IC))))"
proof -
  obtain ok1 table IC DC where fp: "first_pass_on_table (snd (expand_macros source)) [] = (ok1, table, IC, DC)"
    by (cases "first_pass_on_table (snd (expand_macros source)) []") auto
  with pf have am: "am = snd (expand_macros source)" and ok1: ok1
    and sp: "second_pass am table IC DC = Some (True, files)"
    by (auto simp: process_file_def Let_def no_outputs_def split: if_splits option.splits)
  from fp am ok1 have fp': "first_pass_on_table am [] = (True, table, IC, DC)" by simp
  from sp obtain img where img: "create_memory_image IC DC = Some img"
    by (auto simp: second_pass_def split: option.splits)
  obtain ins idx cur ext_list e1 where
    ip: "instruction_pass (read_lines am) table (instruction_count img)
           (instructions img, 0, INITIAL_IC, [], False) = (ins, idx, cur, ext_list, e1)"
    by (cases "instruction_pass (read_lines am) table (instruction_count img)
           (instructions img, 0, INITIAL_IC, [], False)") auto
  from sp img ip obtain dat didx where
    dp: "data_pass (read_lines am) (data img, 0, e1) = Some (dat, didx, False)"
    and files: "ext files = generate_externals_file ext_list"
    by (auto simp: second_pass_def no_outputs_def split: option.splits if_splits)
  from dp have "\<not> e1" by (cases e1) (auto dest: data_pass_error_stays)
  with ip have ip': "instruction_pass (read_lines am) table (instruction_count img)
           (instructions img, 0, INITIAL_IC, [], False) = (ins, idx, cur, ext_list, False)" by simp
  from instruction_pass_uses [OF ip' names_valid_first_pass [OF fp']]
  have "ext_list = rev (external_uses table (read_lines am) INITIAL_IC)" by simp
  with files have "ext files =
             (if external_uses table (read_lines am) INITIAL_IC = [] then None
              else Some (map external_line (rev (external_uses table (read_lines am) INITIAL_IC))))"
    by (simp add: generate_externals_file_def)
  with fp' show ?thesis by blast
qed

theorem externals_file_order_witness:
  "process_file (text_file [''.extern A, B'', ''jmp A'', ''jmp B'', ''jmp A'', ''stop''])
     = Some (True, text_file [''.extern A, B'', ''jmp A'', ''jmp B'', ''jmp A'', ''stop''],
             \<lparr>ob = Some [Some ''bd a'', Some ''bcba cbaba'', Some ''bcbb aaaab'',
                         Some ''bcbc cbaba'', Some ''bcbd aaaab'', Some ''bcca cbaba'',
                         Some ''bccb aaaab'', Some ''bccc ddaaa''],
              ent = None,
              ext = Some [''A bccb'', ''B bcbd'', ''A bcbb'']\<rparr>)
   \<and> (\<exists>table IC DC.
          first_pass_on_table (text_file [''.extern A, B'', ''jmp A'', ''jmp B'', ''jmp A'', ''stop'']) []
            = (True, table, IC, DC)
        \<and> external_uses table
            (read_lines (text_file [''.extern A, B'', ''jmp A'', ''jmp B'', ''jmp A'', ''stop'']))
            INITIAL_IC
          = [\<lparr>symbol_name = ''A'', ref_address = 101\<rparr>,
             \<lparr>symbol_name = ''B'', ref_address = 103\<rparr>,
             \<lparr>symbol_name = ''A'', ref_address = 105\<rparr>]
        \<and> Some [''A bccb'', ''B bcbd'', ''A bcbb'']
          = Some (map external_line
                   (rev (external_uses table
                          (read_lines (text_file [''.extern A, B'', ''jmp A'', ''jmp B'', ''jmp A'', ''stop'']))
                          INITIAL_IC))))"
proof -
  let ?S = "text_file [''.extern A, B'', ''jmp A'', ''jmp B'', ''jmp A'', ''stop'']"
  let ?T = "[\<lparr>node_name = ''B'', address = 0, node_type = LABEL_EXTERNAL, is_defined = False\<rparr>,
             \<lparr>node_name = ''A'', address = 0, node_type = LABEL_EXTERNAL, is_defined = False\<rparr>]"
  let ?F = "\<lparr>ob = Some [Some ''bd a'', Some ''bcba cbaba'', Some ''bcbb aaaab'',
                         Some ''bcbc cbaba'', Some ''bcbd aaaab'', Some ''bcca cbaba'',
                         Some ''bccb aaaab'', Some ''bccc ddaaa''],
              ent = None,
              ext = Some [''A bccb'', ''B bcbd'', ''A bcbb'']\<rparr>"
  have pf: "process_file ?S = Some (True, ?S, ?F)" by code_simp
  have fp: "first_pass_on_table ?S [] = (True, ?T, 107, 0)" by code_simp
  have eu: "external_uses ?T (read_lines ?S) INITIAL_IC
          = [\<lparr>symbol_name = ''A'', ref_address = 101\<rparr>,
             \<lparr>symbol_name = ''B'', ref_address = 103\<rparr>,
             \<lparr>symbol_name = ''A'', ref_address = 105\<rparr>]" by code_simp
  from externals_file_order [OF pf] obtain table IC DC where
    a: "first_pass_on_table ?S [] = (True, table, IC, DC)"
    and b: "ext ?F =
             (if external_uses table (read_lines ?S) INITIAL_IC = [] then None
              else Some (map external_line (rev (external_uses table (read_lines ?S) INITIAL_IC))))"
    by blast
  from a fp have t: "table = ?T" by simp
  from b eu have c: "Some [''A bccb'', ''B bcbd'', ''A bcbb'']
          = Some (map external_line (rev (external_uses ?T (read_lines ?S) INITIAL_IC)))"
    unfolding t by simp
  show ?thesis by (intro conjI exI) (rule pf fp eu c)+
qed

text \<open>
  As the claim states it, with the lines in the order of occurrence, it fails whenever two
  use sites differ: below \<open>A\<close> is used at 101 and then \<open>B\<close> at 103, and the externals file
  lists \<open>B\<close> first.
\<close>

theorem externals_file_occurrence_order_counterexample:
  "process_file (text_file [''.extern A, B'', ''jmp A'', ''jmp B'', ''stop''])
     = Some (True, text_file [''.extern A, B'', ''jmp A'', ''jmp B'', ''stop''],
             \<lparr>ob = Some [Some ''bb a'', Some ''bcba cbaba'', Some ''bcbb aaaab'',
                         Some ''bcbc cbaba'', Some ''bcbd aaaab'', Some ''bcca ddaaa''],
              ent = None,
              ext = Some [''B bcbd'', ''A bcbb'']\<rparr>)
   \<and> first_pass_on_table (text_file [''.extern A, B'', ''jmp A'', ''jmp B'', ''stop'']) []
     = (True,
        [\<lparr>node_name = ''B'', address = 0, node_type = LABEL_EXTERNAL, is_defined = False\<rparr>,
         \<lparr>node_name = ''A'', address = 0, node_type = LABEL_EXTERNAL, is_defined = False\<rparr>],
        105, 0)
   \<and> map external_line
       (external_uses
          [\<lparr>node_name = ''B'', address = 0, node_type = LABEL_EXTERNAL, is_defined = False\<rparr>,
           \<lparr>node_name = ''A'', address = 0, node_type = LABEL_EXTERNAL, is_defined = False\<rparr>]
          (read_lines (text_file [''.extern A, B'', ''jmp A'', ''jmp B'', ''stop'']))
          INITIAL_IC)
     = [''A bcbb'', ''B bcbd'']
   \<and> [''B bcbd'', ''A bcbb''] \<noteq> [''A bcbb'', ''B bcbd'']"
  by code_simp

section \<open>The entries file\<close>

text \<open>
  Claim C1.  Every symbol named in a \<open>.entry\<close> directive and defined locally gets a line
  in the entries file with its final, relocated address, whatever its kind.  The program
  does not do this for a data symbol.  In the first source below \<open>X\<close> is defined by
  \<open>.data\<close> and then named by \<open>.entry\<close>: it keeps the type \<open>LABEL_DATA\<close>, is relocated to
  101, the assembly succeeds and no entries file is written.  In the second the \<open>.entry\<close>
  comes first: \<open>X\<close> keeps the type \<open>LABEL_ENTRY\<close>, is not relocated, and the entries file
  gives it the address 0 (\<open>aaaa\<close>) instead of 101 (\<open>bcbb\<close>).
\<close>

theorem entries_file_data_symbol:
  "first_pass_on_table (text_file [''X: .data 5'', ''.entry X'', ''stop'']) []
     = (True, [\<lparr>node_name = ''X'', address = 101, node_type = LABEL_DATA, is_defined = True\<rparr>], 101, 1)
   \<and> process_file (text_file [''X: .data 5'', ''.entry X'', ''stop''])
     = Some (True, text_file [''X: .data 5'', ''.entry X'', ''stop''],
             \<lparr>ob = Some [Some ''b b'', Some ''bcba ddaaa'', Some ''bcbb aaabb''],
              ent = None, ext = None\<rparr>)
   \<and> first_pass_on_table (text_file [''.entry X'', ''X: .data 5'', ''stop'']) []
     = (True, [\<lparr>node_name = ''X'', address = 0, node_type = LABEL_ENTRY, is_defined = True\<rparr>], 101, 1)
   \<and> process_file (text_file [''.entry X'', ''X: .data 5'', ''stop''])
     = Some (True, text_file [''.entry X'', ''X: .data 5'', ''stop''],
             \<lparr>ob = Some [Some ''b b'', Some ''bcba ddaaa'', Some ''bcbb aaabb''],
              ent = Some [''X aaaa''], ext = None\<rparr>)
   \<and> number_to_base4_letters 101 = ''bcbb''"
  by code_simp

section \<open>Validation against the instruction table\<close>

text \<open>
  Claim C2.  An instruction line whose operands violate the instruction table (a wrong
  number of operands, or an addressing mode outside the mask of its slot) is a hard error
  and the assembly fails.  The passes never call \<open>check_line\<close>, the one function that
  tests this: \<open>mov r1, r2, r3\<close> (three operands for a two-operand opcode) and
  \<open>mov r1, #5\<close> (an immediate destination, outside the mask of \<open>mov\<close>) are both rejected by
  \<open>check_line\<close>, and both assemble successfully into an object file.
\<close>

theorem operand_violations_assemble:
  "parse_line (''mov r1, r2, r3'' @ [NEWLINE_CHAR])
     = Some \<lparr>label = None, command = Some ''mov'', operands = [''r1'', ''r2'', ''r3'']\<rparr>
   \<and> check_line \<lparr>label = None, command = Some ''mov'', operands = [''r1'', ''r2'', ''r3'']\<rparr> = False
   \<and> estimate_ic_words \<lparr>label = None, command = Some ''mov'', operands = [''r1'', ''r2'', ''r3'']\<rparr> = 2
   \<and> process_file (text_file [''mov r1, r2, r3''])
     = Some (True, text_file [''mov r1, r2, r3''],
             \<lparr>ob = Some [Some ''c a'', Some ''bcba aadda'', Some ''bcbb abaca''],
              ent = None, ext = None\<rparr>)
   \<and> check_line \<lparr>label = None, command = Some ''mov'', operands = [''r1'', ''#5'']\<rparr> = False
   \<and> process_file (text_file [''mov r1, #5''])
     = Some (True, text_file [''mov r1, #5''],
             \<lparr>ob = Some [Some ''d a'', Some ''bcba aadaa'', Some ''bcbb aaaba'', Some ''bcbc aabba''],
              ent = None, ext = None\<rparr>)"
  by code_simp

section \<open>A failed macro expansion\<close>

text \<open>
  Claim C3.  When the macro pre-processor fails, in particular at the end of the input
  inside a \<open>mcro\<close> definition, the file is abandoned before the first pass and no object,
  entries or externals file is written.  \<open>expand_macros\<close> returns \<open>void\<close> and
  \<open>process_file\<close> goes on regardless: for a source whose macro \<open>m\<close> is never closed the
  expansion stops with an error and leaves an empty \<open>.am\<close> file, both passes run on it,
  \<open>process_file\<close> returns \<open>SUCCESS\<close> and an object file with the header \<open>a a\<close> is written.
\<close>

theorem unclosed_macro_still_assembles:
  "expand_macros (text_file [''mcro m'', ''stop'']) = (False, [])
   \<and> first_pass_on_table [] [] = (True, [], 100, 0)
   \<and> process_file (text_file [''mcro m'', ''stop''])
     = Some (True, [], \<lparr>ob = Some [Some ''a a''], ent = None, ext = None\<rparr>)"
  by code_simp

section \<open>The words of the two passes\<close>

text \<open>
  Claim C6.  For every line accepted as an instruction the second pass emits as many words
  as the first pass counted, so the instruction image of every assembled program holds
  exactly \<open>IC_final - 100\<close> words (and the data image \<open>DC_final\<close> words).  The first pass
  skips one carriage return after the leading blanks of a line before it parses it
  (\<open>line_start\<close>); the second pass parses the line as it is.  For the line
  \<open>\r X: stop\<close> (a carriage return, then \<open>X: stop\<close>) the first pass counts one word and
  defines \<open>X\<close>, the second pass cannot parse the label, skips the line without an error and
  stores no word; the assembly succeeds and the object file announces one instruction word
  and prints it from a slot that was never written.
\<close>

theorem carriage_return_line_words:
  "first_pass_on_table (CARRIAGE_RETURN_CHAR # text_file [''X: stop'']) []
     = (True, [\<lparr>node_name = ''X'', address = 100, node_type = LABEL_CODE, is_defined = True\<rparr>], 101, 0)
   \<and> parse_line (CARRIAGE_RETURN_CHAR # ''X: stop'' @ [NEWLINE_CHAR]) = None
   \<and> instruction_pass (read_lines (CARRIAGE_RETURN_CHAR # text_file [''X: stop'']))
        [\<lparr>node_name = ''X'', address = 100, node_type = LABEL_CODE, is_defined = True\<rparr>] 1
        ([None], 0, 100, [], False)
     = ([None], 0, 100, [], False)
   \<and> process_file (CARRIAGE_RETURN_CHAR # text_file [''X: stop''])
     = Some (True, CARRIAGE_RETURN_CHAR # text_file [''X: stop''],
             \<lparr>ob = Some [Some ''b a'', None], ent = None, ext = None\<rparr>)"
  by code_simp

section \<open>The longest line\<close>

text \<open>
  Claim C7.  A line of exactly 80 characters (plus its newline) assembles, and a line of 81
  characters is an error.  The buffer of \<open>fgets\<close> has \<open>MAX_LINE_LENGTH = 81\<close> bytes, so it
  receives the 80 characters without the newline, and the passes take that for a line that
  is too long: the first pass fails on the \<open>.data\<close> line of 80 characters below, although
  \<open>parse_line\<close> accepts those 80 characters and the message printed says that the maximum
  is 80.  The longest line that the first pass accepts has 79 characters.
\<close>

theorem line_of_80_characters_rejected:
  "length (''.data '' @ concat (replicate 18 ''10, '') @ ''10'') = 80
   \<and> read_lines (''.data '' @ concat (replicate 18 ''10, '') @ ''10'' @ [NEWLINE_CHAR])
     = [''.data '' @ concat (replicate 18 ''10, '') @ ''10'', [NEWLINE_CHAR]]
   \<and> line_too_long (''.data '' @ concat (replicate 18 ''10, '') @ ''10'')
   \<and> first_pass_on_table (''.data '' @ concat (replicate 18 ''10, '') @ ''10'' @ [NEWLINE_CHAR]) []
     = (False, [], 100, 0)
   \<and> map_option (\<lambda>parts. (command parts, length (operands parts)))
        (parse_line (''.data '' @ concat (replicate 18 ''10, '') @ ''10''))
     = Some (Some ''.data'', 19)
   \<and> length (''.data '' @ concat (replicate 18 ''10, '') @ ''1'') = 79
   \<and> first_pass_on_table (''.data '' @ concat (replicate 18 ''10, '') @ ''1'' @ [NEWLINE_CHAR]) []
     = (True, [], 100, 19)"
  by code_simp

section \<open>Control characters\<close>

text \<open>
  Claim C8.  \<open>parse_line\<close> rejects every line that contains a control character other than
  a trailing newline or carriage return.  Its test is
  \<open>strcspn(line, CONTROL_CHARS) != line_len\<close>, and the literal \<open>CONTROL_CHARS\<close> starts with
  a NUL, so as a C string it is empty and the test never fails: the line
  \<open>.string "a^Ab"\<close> (with the byte 0x01 between \<open>a\<close> and \<open>b\<close>) is parsed, and the first pass
  accepts it and counts its four data words.
\<close>

theorem control_character_accepted:
  "CONTROL_CHARS = []
   \<and> parse_line (''.string '' @ [QUOTE_CHAR, CHR ''a'', CHR 0x01, CHR ''b'', QUOTE_CHAR, NEWLINE_CHAR])
     = Some \<lparr>label = None, command = Some ''.string'',
             operands = [[QUOTE_CHAR, CHR ''a'', CHR 0x01, CHR ''b'', QUOTE_CHAR]]\<rparr>
   \<and> first_pass_on_table
        (''.string '' @ [QUOTE_CHAR, CHR ''a'', CHR 0x01, CHR ''b'', QUOTE_CHAR, NEWLINE_CHAR]) []
     = (True, [], 100, 4)"
  by code_simp


end
